theory Spec2Isabelle
  imports Complex_Main "HOL-Library.Multiset" "HOL-Library.Sublist"
begin

section \<open>JavaScript values as the pages read them\<close>

text \<open>
  The pages read JSON objects sent by the backend. A field that is absent, \<open>undefined\<close>
  or \<open>null\<close> is \<open>None\<close>. A string is falsy when it is absent or empty, a number when it
  is absent or zero (JSON carries no NaN).
\<close>

definition truthy_str :: "string option \<Rightarrow> bool" where
  "truthy_str v = (case v of None \<Rightarrow> False | Some s \<Rightarrow> s \<noteq> [])"

definition truthy_num :: "real option \<Rightarrow> bool" where
  "truthy_num v = (case v of None \<Rightarrow> False | Some x \<Rightarrow> x \<noteq> 0)"

text \<open>\<open>a || b\<close>: the left operand when it is truthy, otherwise the right one as it is.\<close>

definition or_string :: "string option \<Rightarrow> string option \<Rightarrow> string option" where
  "or_string a b = (if truthy_str a then a else b)"

definition or_number :: "real option \<Rightarrow> real option \<Rightarrow> real option" where
  "or_number a b = (if truthy_num a then a else b)"

text \<open>\<open>xs[i]\<close> on an array: \<open>undefined\<close> beyond the end.\<close>

definition at_index :: "'a list \<Rightarrow> nat \<Rightarrow> 'a option" where
  "at_index xs i = (if i < length xs then Some (xs ! i) else None)"

subsection \<open>Tickets and sub-tickets of a listing or upload response\<close>

text \<open>
  The fields the pages read on a sub-ticket object and on a ticket object. On a ticket
  the fields \<open>status\<close>, \<open>latitude\<close>, \<open>longitude\<close> and \<open>created_at\<close> are written with the
  prefix \<open>ticket_\<close>, to tell them from those of a sub-ticket.
\<close>

record sub_ticket =
  sub_id :: "string option"
  issue_type :: "string option"
  authority :: "string option"
  status :: "string option"
  latitude :: "real option"
  longitude :: "real option"
  media_count :: "int option"
  rejected_count :: "int option"
  created_at :: "string option"
  image_id :: "string option"

record ticket =
  ticket_id :: "string option"
  ticket_status :: "string option"
  ticket_latitude :: "real option"
  ticket_longitude :: "real option"
  ticket_created_at :: "string option"
  sub_tickets :: "sub_ticket list option"

text \<open>The body of \<open>GET /api/complaints/tickets\<close>: \<open>{tickets: [...]}\<close>.\<close>

record tickets_response =
  tickets :: "ticket list option"

text \<open>\<open>xs || []\<close> on an optional array.\<close>

definition or_empty :: "'a list option \<Rightarrow> 'a list" where
  "or_empty v = (case v of None \<Rightarrow> [] | Some xs \<Rightarrow> xs)"

section \<open>HomePage: dashboard statistics\<close>

record stats =
  st_total :: int
  st_resolved :: int
  st_working :: int
  st_open :: int

text \<open>
  \<open>fetchTickets\<close> of HomePage.jsx, after the listing has arrived: the counts are taken
  over the ticket objects, reading \<open>t.status\<close> on each of them.
\<close>

definition HomePage_stats :: "tickets_response \<Rightarrow> stats" where
  "HomePage_stats response =
     (let ticketsData = or_empty (tickets response);
          total = int (length ticketsData);
          resolved = int (length (filter (\<lambda>t. ticket_status t = Some ''resolved''
                                             \<or> ticket_status t = Some ''closed'') ticketsData));
          working = int (length (filter (\<lambda>t. ticket_status t = Some ''in_progress''
                                            \<or> ticket_status t = Some ''working'') ticketsData));
          open = total - resolved - working
      in \<lparr>st_total = total, st_resolved = resolved, st_working = working, st_open = open\<rparr>)"

section \<open>TicketLog: flattening, filtering, sorting, paging\<close>

text \<open>
  A row of the log is a sub-ticket spread into a new object together with the id and the
  coordinates of its parent: \<open>{...subTicket, ticket_id, ticket_latitude, ticket_longitude}\<close>.
\<close>

record log_row =
  row_sub :: sub_ticket
  row_ticket_id :: "string option"
  row_ticket_latitude :: "real option"
  row_ticket_longitude :: "real option"

definition TicketLog_row :: "ticket \<Rightarrow> sub_ticket \<Rightarrow> log_row" where
  "TicketLog_row t s =
     \<lparr>row_sub = s, row_ticket_id = ticket_id t,
      row_ticket_latitude = ticket_latitude t, row_ticket_longitude = ticket_longitude t\<rparr>"

text \<open>\<open>fetchTickets\<close> of the log: the two nested \<open>forEach\<close> push the rows in order.\<close>

definition TicketLog_fetchTickets :: "tickets_response \<Rightarrow> log_row list" where
  "TicketLog_fetchTickets response =
     concat (map (\<lambda>t. map (TicketLog_row t) (or_empty (sub_tickets t)))
                 (or_empty (tickets response)))"

text \<open>The filter and paging state of the component, with its initial values.\<close>

record log_state =
  selectedDistortion :: string
  selectedStatus :: string
  selectedDate :: string
  currentPage :: int



text \<open>
  The callback given to \<open>tickets.filter\<close>: its three local constants and their
  conjunction. The entry \<open>all\<close> of a select and the empty date switch a filter off.
\<close>

definition distortionMatch :: "log_state \<Rightarrow> log_row \<Rightarrow> bool" where
  "distortionMatch st r =
     (selectedDistortion st = ''all''
      \<or> issue_type (row_sub r) = Some (selectedDistortion st))"

definition statusMatch :: "log_state \<Rightarrow> log_row \<Rightarrow> bool" where
  "statusMatch st r =
     (selectedStatus st = ''all'' \<or> status (row_sub r) = Some (selectedStatus st))"

definition dateMatch :: "log_state \<Rightarrow> log_row \<Rightarrow> bool" where
  "dateMatch st r =
     (selectedDate st = ''''
      \<or> (case created_at (row_sub r) of
            None \<Rightarrow> False
          | Some c \<Rightarrow> c \<noteq> [] \<and> prefix (selectedDate st) c))"

definition row_matches :: "log_state \<Rightarrow> log_row \<Rightarrow> bool" where
  "row_matches st r = (distortionMatch st r \<and> statusMatch st r \<and> dateMatch st r)"

text \<open>
  \<open>new Date(s)\<close> is the browser's: \<open>parseDate s\<close> is the time value in milliseconds, or
  \<open>None\<close> for an invalid date, whose arithmetic gives NaN. A row without \<open>created_at\<close>
  counts as \<open>new Date(0)\<close>.
\<close>

definition row_date :: "(string \<Rightarrow> int option) \<Rightarrow> log_row \<Rightarrow> int option" where
  "row_date parseDate r =
     (case created_at (row_sub r) of
        None \<Rightarrow> Some 0
      | Some c \<Rightarrow> if c = [] then Some 0 else parseDate c)"


text \<open>
  The comparator \<open>(a, b) => dateB - dateA\<close>. \<open>Array.prototype.sort\<close> reads a NaN result
  as \<open>+0\<close>.
\<close>

definition compare_rows :: "(string \<Rightarrow> int option) \<Rightarrow> log_row \<Rightarrow> log_row \<Rightarrow> int" where
  "compare_rows parseDate a b =
     (case (row_date parseDate a, row_date parseDate b) of
        (Some dateA, Some dateB) \<Rightarrow> dateB - dateA
      | _ \<Rightarrow> 0)"

text \<open>
  \<open>Array.prototype.sort(cmp)\<close> is a stable sort: for a comparator that is a consistent
  order the result is the one of a stable insertion sort, which is how it is written
  here. When some \<open>created_at\<close> does not parse, the comparator answers NaN, is no longer
  a consistent order, and the language leaves the order to the engine: the definition
  then gives one permutation of the rows, an engine may give another, and nothing below
  states the order in that case.
\<close>

fun insert_by :: "('a \<Rightarrow> 'a \<Rightarrow> int) \<Rightarrow> 'a \<Rightarrow> 'a list \<Rightarrow> 'a list" where
  "insert_by cmp x [] = [x]"
| "insert_by cmp x (y # ys) =
     (if cmp x y \<le> 0 then x # y # ys else y # insert_by cmp x ys)"

definition js_sort :: "('a \<Rightarrow> 'a \<Rightarrow> int) \<Rightarrow> 'a list \<Rightarrow> 'a list" where
  "js_sort cmp xs = foldr (insert_by cmp) xs []"


definition filteredTickets :: "(string \<Rightarrow> int option) \<Rightarrow> log_state \<Rightarrow> log_row list \<Rightarrow> log_row list" where
  "filteredTickets parseDate st rows =
     js_sort (compare_rows parseDate) (filter (row_matches st) rows)"








text \<open>The location cell of a row: a link to the map, or the words "Location not available".\<close>

datatype location_cell = LocationLink real real | LocationNotAvailable

definition TicketLog_location_cell :: "log_row \<Rightarrow> location_cell" where
  "TicketLog_location_cell r =
     (let lat = or_number (latitude (row_sub r)) (row_ticket_latitude r);
          lng = or_number (longitude (row_sub r)) (row_ticket_longitude r)
      in case (lat, lng) of
           (Some la, Some lo) \<Rightarrow>
             if la \<noteq> 0 \<and> lo \<noteq> 0 then LocationLink la lo else LocationNotAvailable
         | _ \<Rightarrow> LocationNotAvailable)"

section \<open>MapView: markers of the tickets\<close>

text \<open>
  An entry of \<open>ticketsWithLocations\<close>: the sub-ticket with its coordinates overwritten by
  the effective ones, and the id of the parent.
\<close>

record map_entry =
  entry_sub :: sub_ticket
  entry_ticket_id :: "string option"

definition MapView_entries_of :: "ticket \<Rightarrow> sub_ticket \<Rightarrow> map_entry list" where
  "MapView_entries_of t s =
     (let lat = or_number (latitude s) (ticket_latitude t);
          lng = or_number (longitude s) (ticket_longitude t)
      in if truthy_num lat \<and> truthy_num lng
         then [\<lparr>entry_sub = s\<lparr>latitude := lat, longitude := lng\<rparr>,
                entry_ticket_id = ticket_id t\<rparr>]
         else [])"

definition MapView_fetchTickets :: "tickets_response \<Rightarrow> map_entry list" where
  "MapView_fetchTickets response =
     concat (map (\<lambda>t. concat (map (MapView_entries_of t) (or_empty (sub_tickets t))))
                 (or_empty (tickets response)))"

record marker =
  marker_key :: "string option"
  marker_position :: "real \<times> real"

text \<open>The \<open>allTickets.map\<close> of the render: \<open>null\<close> or a marker for each entry.\<close>

definition MapView_render_entry :: "map_entry \<Rightarrow> marker option" where
  "MapView_render_entry e =
     (case (latitude (entry_sub e), longitude (entry_sub e)) of
        (Some la, Some lo) \<Rightarrow>
          if la = 0 \<or> lo = 0 then None
          else Some \<lparr>marker_key = or_string (sub_id (entry_sub e)) (entry_ticket_id e),
                     marker_position = (la, lo)\<rparr>
      | _ \<Rightarrow> None)"

definition MapView_markers :: "tickets_response \<Rightarrow> marker list" where
  "MapView_markers response =
     concat (map (\<lambda>e. case MapView_render_entry e of None \<Rightarrow> [] | Some m \<Rightarrow> [m])
                 (MapView_fetchTickets response))"

text \<open>
  Having a location, in both views: the latitude and the longitude, each falling back to
  the parent ticket's, are truthy.
\<close>

definition located :: "ticket \<Rightarrow> sub_ticket \<Rightarrow> bool" where
  "located t s =
     (truthy_num (or_number (latitude s) (ticket_latitude t))
      \<and> truthy_num (or_number (longitude s) (ticket_longitude t)))"

text \<open>The sub-tickets of a listing, each with its parent.\<close>

definition sub_tickets_with_parent :: "tickets_response \<Rightarrow> (ticket \<times> sub_ticket) list" where
  "sub_tickets_with_parent response =
     concat (map (\<lambda>t. map (Pair t) (or_empty (sub_tickets t))) (or_empty (tickets response)))"

section \<open>The API service\<close>

subsection \<open>JSON values and errors\<close>

text \<open>
  The body of an error answer is read as an arbitrary JSON value. An object is the list
  of its members (keys distinct, as \<open>JSON.parse\<close> leaves them); numbers are integers.
\<close>

datatype json =
    JNull
  | JBool bool
  | JNum int
  | JStr string
  | JArr "json list"
  | JObj "(string \<times> json) list"

datatype js_error = Error string | TypeError string | SyntaxError string

fun error_message :: "js_error \<Rightarrow> string" where
  "error_message (Error m) = m"
| "error_message (TypeError m) = m"
| "error_message (SyntaxError m) = m"

text \<open>
  \<open>v.k\<close>: reading a property of \<open>null\<close> throws a TypeError; a value that is not an object
  has no such property.
\<close>

fun get_prop :: "string \<Rightarrow> json \<Rightarrow> js_error + json option" where
  "get_prop k JNull =
     Inl (TypeError (''Cannot read properties of null (reading '' @ [CHR 0x27] @ k
                     @ [CHR 0x27] @ '')''))"
| "get_prop k (JObj kvs) = Inr (map_of kvs k)"
| "get_prop k v = Inr None"

fun truthy_json :: "json \<Rightarrow> bool" where
  "truthy_json JNull = False"
| "truthy_json (JBool b) = b"
| "truthy_json (JNum n) = (n \<noteq> 0)"
| "truthy_json (JStr s) = (s \<noteq> [])"
| "truthy_json (JArr xs) = True"
| "truthy_json (JObj kvs) = True"

text \<open>Decimal digits of a number, as a template literal prints it.\<close>

fun show_nat :: "nat \<Rightarrow> string" where
  "show_nat n =
     (if n < 10 then [''0123456789'' ! n]
      else show_nat (n div 10) @ [''0123456789'' ! (n mod 10)])"

declare show_nat.simps [simp del]

definition show_int :: "int \<Rightarrow> string" where
  "show_int i = (if i < 0 then CHR ''-'' # show_nat (nat (- i)) else show_nat (nat i))"

fun join_commas :: "string list \<Rightarrow> string" where
  "join_commas [] = []"
| "join_commas [s] = s"
| "join_commas (s # t # ss) = s @ '','' @ join_commas (t # ss)"

text \<open>
  \<open>String(v)\<close>, which \<open>new Error(v)\<close> applies to its argument: a string is itself, an
  array is its elements joined by commas (\<open>null\<close> printing as nothing), an object is
  \<open>[object Object]\<close>.
\<close>

fun to_string :: "json \<Rightarrow> string" where
  "to_string JNull = ''null''"
| "to_string (JBool b) = (if b then ''true'' else ''false'')"
| "to_string (JNum n) = show_int n"
| "to_string (JStr s) = s"
| "to_string (JArr xs) =
     join_commas (map (\<lambda>x. if x = JNull then [] else to_string x) xs)"
| "to_string (JObj kvs) = ''[object Object]''"

text \<open>\<open>a || b\<close> where \<open>a\<close> may be \<open>undefined\<close>.\<close>

definition or_json :: "json option \<Rightarrow> json \<Rightarrow> json" where
  "or_json a b = (case a of None \<Rightarrow> b | Some v \<Rightarrow> if truthy_json v then v else b)"

subsection \<open>Responses of \<open>fetch\<close>\<close>

text \<open>
  What the service reads of a response: \<open>ok\<close>, \<open>status\<close>, \<open>statusText\<close>, the body as
  text, the body as \<open>JSON.parse\<close> gives it (\<open>None\<close> when it is not JSON), and the body
  of a successful answer at the type its caller reads (\<open>None\<close> when \<open>response.json()\<close>
  rejects). \<open>fetch\<close> itself rejects when the backend cannot be reached.
\<close>

record 'a http_response =
  ok :: bool
  http_status :: nat
  statusText :: string
  body_text :: string
  body_json :: "json option"
  body_data :: "'a option"

subsection \<open>\<open>apiRequest\<close>\<close>

text \<open>
  The generic wrapper, given what \<open>fetch\<close> answered. \<open>JSON.stringify\<close> is the browser's.
  The outer \<open>catch\<close> only logs and rethrows.
\<close>

definition apiRequest :: "(json \<Rightarrow> string) \<Rightarrow> js_error + 'a http_response \<Rightarrow> js_error + 'a" where
  "apiRequest stringify fetched =
     (case fetched of
        Inl e \<Rightarrow> Inl e
      | Inr response \<Rightarrow>
          if \<not> ok response then
            (let text = body_text response;
                 errorMessage =
                   (case body_json response of
                      None \<Rightarrow> JStr text
                    | Some errorData \<Rightarrow>
                        (case get_prop ''detail'' errorData of
                           Inl e \<Rightarrow> JStr text
                         | Inr detail \<Rightarrow> or_json detail (JStr (stringify errorData))))
             in Inl (Error (to_string
                  (or_json (Some errorMessage)
                     (JStr (''HTTP error! status: '' @ show_nat (http_status response)))))))
          else (case body_data response of
                  None \<Rightarrow> Inl (SyntaxError ''Unexpected token'')
                | Some data \<Rightarrow> Inr data))"

subsection \<open>\<open>getTickets\<close>\<close>

record ticket_filters =
  filter_status :: "string option"
  filter_issue_type :: "string option"

record api_endpoint =
  endpoint_path :: string
  endpoint_params :: "(string \<times> string) list"

text \<open>The endpoint of the listing: the query holds the filters that are truthy.\<close>

definition getTickets_endpoint :: "ticket_filters \<Rightarrow> api_endpoint" where
  "getTickets_endpoint filters =
     \<lparr>endpoint_path = ''/api/complaints/tickets'',
      endpoint_params =
        (case filter_status filters of
           None \<Rightarrow> [] | Some s \<Rightarrow> if s \<noteq> [] then [(''status'', s)] else [])
        @ (case filter_issue_type filters of
             None \<Rightarrow> [] | Some i \<Rightarrow> if i \<noteq> [] then [(''issue_type'', i)] else [])\<rparr>"

definition getTickets ::
  "(json \<Rightarrow> string) \<Rightarrow> (api_endpoint \<Rightarrow> js_error + tickets_response http_response)
     \<Rightarrow> ticket_filters \<Rightarrow> js_error + tickets_response" where
  "getTickets stringify fetch filters = apiRequest stringify (fetch (getTickets_endpoint filters))"

subsection \<open>\<open>uploadComplaints\<close>\<close>

record js_file =
  file_name :: string
  file_type :: string
  file_content :: string

text \<open>A value appended to a \<open>FormData\<close>: a file or a string.\<close>

datatype form_value = FormFile js_file | FormString string

record upload_request =
  req_method :: string
  req_path :: string
  req_form :: "(string \<times> form_value) list"

record upload_response =
  tickets_created :: "ticket list option"
  duplicates_found :: "int option"
  message :: "string option"

text \<open>The request: every file is appended to the form under the name \<open>files\<close>.\<close>

definition uploadComplaints_request :: "js_file list \<Rightarrow> upload_request" where
  "uploadComplaints_request files =
     \<lparr>req_method = ''POST'', req_path = ''/api/complaints/batch'',
      req_form = map (\<lambda>f. (''files'', FormFile f)) files\<rparr>"

text \<open>
  When the answer is not OK, \<open>response.json().catch(() => ({detail: statusText}))\<close>
  replaces a body that is not JSON.
\<close>

definition uploadComplaints ::
  "(upload_request \<Rightarrow> js_error + upload_response http_response) \<Rightarrow> js_file list
     \<Rightarrow> js_error + upload_response" where
  "uploadComplaints fetch files =
     (case fetch (uploadComplaints_request files) of
        Inl e \<Rightarrow> Inl e
      | Inr response \<Rightarrow>
          if \<not> ok response then
            (let errorData =
                   (case body_json response of
                      None \<Rightarrow> JObj [(''detail'', JStr (statusText response))]
                    | Some v \<Rightarrow> v)
             in case get_prop ''detail'' errorData of
                  Inl e \<Rightarrow> Inl e
                | Inr detail \<Rightarrow>
                    Inl (Error (to_string
                      (or_json detail
                         (JStr (''Upload failed: '' @ show_nat (http_status response)))))))
          else (case body_data response of
                  None \<Rightarrow> Inl (SyntaxError ''Unexpected token'')
                | Some data \<Rightarrow> Inr data))"

section \<open>ComplaintPage: submitting a batch\<close>

text \<open>
  An entry of the \<open>images\<close> or \<open>videos\<close> state: its id, its preview URL, the File object
  when there is one, and the coordinates the browser reported when it was added.
\<close>

record media =
  media_id :: string
  url :: "string option"
  media_file :: "js_file option"
  lat :: "real option"
  lng :: "real option"

record blob =
  blob_type :: string
  blob_content :: string

text \<open>
  One round of the loop over \<open>images\<close>: the files it pushes. \<open>fetchBlob u\<close> stands for
  \<open>fetch(u)\<close> followed by \<open>response.blob()\<close> on a preview URL, which may reject.
\<close>

definition image_files :: "(string \<Rightarrow> js_error + blob) \<Rightarrow> media \<Rightarrow> js_error + js_file list" where
  "image_files fetchBlob img =
     (case media_file img of
        Some f \<Rightarrow> Inr [f]
      | None \<Rightarrow>
          if truthy_str (url img) \<and> prefix ''blob:'' (or_empty (url img)) then
            (case fetchBlob (or_empty (url img)) of
               Inl e \<Rightarrow> Inl e
             | Inr b \<Rightarrow> Inr [\<lparr>file_name = ''image-'' @ media_id img @ ''.jpg'',
                               file_type = blob_type b, file_content = blob_content b\<rparr>])
          else if truthy_str (url img) \<and> prefix ''data:'' (or_empty (url img)) then
            (case fetchBlob (or_empty (url img)) of
               Inl e \<Rightarrow> Inl e
             | Inr b \<Rightarrow> Inr [\<lparr>file_name = ''image-'' @ media_id img @ ''.jpg'',
                               file_type = blob_type b, file_content = blob_content b\<rparr>])
          else Inr [])"

definition video_files :: "(string \<Rightarrow> js_error + blob) \<Rightarrow> media \<Rightarrow> js_error + js_file list" where
  "video_files fetchBlob vid =
     (case media_file vid of
        Some f \<Rightarrow> Inr [f]
      | None \<Rightarrow>
          if truthy_str (url vid) \<and> prefix ''blob:'' (or_empty (url vid)) then
            (case fetchBlob (or_empty (url vid)) of
               Inl e \<Rightarrow> Inl e
             | Inr b \<Rightarrow> Inr [\<lparr>file_name = ''video-'' @ media_id vid @ ''.webm'',
                               file_type = blob_type b, file_content = blob_content b\<rparr>])
          else Inr [])"

text \<open>A \<open>for ... of\<close> loop pushing files: the first rejection leaves the loop.\<close>

fun collect_files :: "('m \<Rightarrow> js_error + js_file list) \<Rightarrow> 'm list \<Rightarrow> js_file list \<Rightarrow> js_error + js_file list" where
  "collect_files step [] filesToUpload = Inr filesToUpload"
| "collect_files step (m # ms) filesToUpload =
     (case step m of
        Inl e \<Rightarrow> Inl e
      | Inr fs \<Rightarrow> collect_files step ms (filesToUpload @ fs))"

definition filesToUpload :: "(string \<Rightarrow> js_error + blob) \<Rightarrow> media list \<Rightarrow> media list \<Rightarrow> js_error + js_file list" where
  "filesToUpload fetchBlob images videos =
     (case collect_files (image_files fetchBlob) images [] of
        Inl e \<Rightarrow> Inl e
      | Inr fs \<Rightarrow> collect_files (video_files fetchBlob) videos fs)"

text \<open>The notice about duplicates: \<open>response.message\<close>, or the default text.\<close>

definition duplicate_alerts :: "upload_response \<Rightarrow> string list" where
  "duplicate_alerts response =
     (case duplicates_found response of
        None \<Rightarrow> []
      | Some n \<Rightarrow>
          if n \<noteq> 0 \<and> n > 0 then
            [if truthy_str (message response) then or_empty (message response)
             else ''Some images were already registered. Duplicates: '' @ show_int n]
          else [])"

text \<open>A row of the results handed to the analysis page.\<close>

record uploaded_file =
  uf_id :: string
  uf_previewUrl :: "string option"
  uf_type :: string
  uf_ticket_id :: "string option"
  uf_sub_id :: "string option"
  uf_issue_type :: "string option"
  uf_authority :: "string option"
  uf_status :: "string option"
  uf_latitude :: "real option"
  uf_longitude :: "real option"
  uf_media_count :: "int option"
  uf_rejected_count :: "int option"

text \<open>
  The object pushed for a sub-ticket when \<open>uploadedFiles\<close> already holds \<open>mediaIndex\<close>
  rows; \<open>allMedia\<close> is \<open>[...images, ...videos]\<close>.
\<close>

definition upload_row :: "media list \<Rightarrow> ticket \<Rightarrow> sub_ticket \<Rightarrow> nat \<Rightarrow> uploaded_file" where
  "upload_row allMedia t subTicket mediaIndex =
     (let originalMedia = at_index allMedia mediaIndex
      in \<lparr>uf_id = (case originalMedia of
                     None \<Rightarrow> ''media-'' @ show_nat mediaIndex
                   | Some m \<Rightarrow> if media_id m \<noteq> [] then media_id m
                               else ''media-'' @ show_nat mediaIndex),
          uf_previewUrl = Option.bind originalMedia url,
          uf_type = (if issue_type subTicket = Some ''video'' then ''video'' else ''image''),
          uf_ticket_id = ticket_id t,
          uf_sub_id = sub_id subTicket,
          uf_issue_type = issue_type subTicket,
          uf_authority = authority subTicket,
          uf_status = status subTicket,
          uf_latitude = or_number (or_number (latitude subTicket) (ticket_latitude t))
                               (Option.bind originalMedia lat),
          uf_longitude = or_number (or_number (longitude subTicket) (ticket_longitude t))
                                (Option.bind originalMedia lng),
          uf_media_count = media_count subTicket,
          uf_rejected_count = rejected_count subTicket\<rparr>)"

fun push_sub_tickets :: "media list \<Rightarrow> ticket \<Rightarrow> sub_ticket list \<Rightarrow> uploaded_file list \<Rightarrow> uploaded_file list" where
  "push_sub_tickets allMedia t [] uploadedFiles = uploadedFiles"
| "push_sub_tickets allMedia t (s # ss) uploadedFiles =
     push_sub_tickets allMedia t ss
       (uploadedFiles @ [upload_row allMedia t s (length uploadedFiles)])"

fun push_tickets :: "media list \<Rightarrow> ticket list \<Rightarrow> uploaded_file list \<Rightarrow> uploaded_file list" where
  "push_tickets allMedia [] uploadedFiles = uploadedFiles"
| "push_tickets allMedia (t # ts) uploadedFiles =
     push_tickets allMedia ts
       (push_sub_tickets allMedia t (or_empty (sub_tickets t)) uploadedFiles)"

definition uploadedFiles :: "media list \<Rightarrow> media list \<Rightarrow> upload_response \<Rightarrow> uploaded_file list" where
  "uploadedFiles images videos response =
     (case tickets_created response of
        None \<Rightarrow> []
      | Some ts \<Rightarrow> if length ts > 0 then push_tickets (images @ videos) ts [] else [])"

text \<open>
  What a run of \<open>handleAnalyze\<close> does: the alerts it shows, the upload requests it
  issues, where it navigates to and with which state, and the component state it leaves.
\<close>

record page_state =
  uploading :: bool
  uploadError :: "string option"

record navigation =
  nav_path :: string
  nav_uploadedFiles :: "uploaded_file list"
  nav_uploadResponse :: upload_response

record analyze_result =
  alerts :: "string list"
  requests :: "upload_request list"
  navigated :: "navigation option"
  state_after :: page_state

text \<open>
  \<open>alert\<close> is the browser's modal dialog: the call returns when the user dismisses the
  dialog, and the handler waits for that. \<open>dismissed text\<close> says whether the user
  dismisses the dialog that shows \<open>text\<close>. While a dialog stays open the result holds
  what has happened by then.
\<close>

text \<open>
  The \<open>catch\<close> and \<open>finally\<close> of the handler, after \<open>reqs\<close> have been issued: the error
  is set, the alert is shown, and \<open>finally\<close> ends the upload once the alert has returned.
\<close>

definition upload_failed :: "(string \<Rightarrow> bool) \<Rightarrow> js_error \<Rightarrow> upload_request list \<Rightarrow> analyze_result" where
  "upload_failed dismissed error reqs =
     \<lparr>alerts = [''Upload failed: '' @ error_message error],
      requests = reqs,
      navigated = None,
      state_after =
        \<lparr>uploading = (\<not> dismissed (''Upload failed: '' @ error_message error)),
         uploadError = Some (if error_message error \<noteq> [] then error_message error
                             else ''Failed to upload complaints. Please try again.'')\<rparr>\<rparr>"

text \<open>
  The handler. After the answer has arrived the notice about duplicates, if any, is
  shown first; the rows are built and the page navigates once it has returned.
\<close>

definition handleAnalyze ::
  "(string \<Rightarrow> bool) \<Rightarrow> (string \<Rightarrow> js_error + blob)
     \<Rightarrow> (upload_request \<Rightarrow> js_error + upload_response http_response)
     \<Rightarrow> media list \<Rightarrow> media list \<Rightarrow> page_state \<Rightarrow> analyze_result" where
  "handleAnalyze dismissed fetchBlob fetch images videos st =
     (if length images = 0 \<and> length videos = 0 then
        \<lparr>alerts = [''Please add at least one image or video.''], requests = [],
         navigated = None, state_after = st\<rparr>
      else
        (case filesToUpload fetchBlob images videos of
           Inl e \<Rightarrow> upload_failed dismissed e []
         | Inr files \<Rightarrow>
             if length files = 0
             then upload_failed dismissed (Error ''No valid files to upload'') []
             else
               (case uploadComplaints fetch files of
                  Inl e \<Rightarrow> upload_failed dismissed e [uploadComplaints_request files]
                | Inr response \<Rightarrow>
                    if list_all dismissed (duplicate_alerts response) then
                      \<lparr>alerts = duplicate_alerts response,
                       requests = [uploadComplaints_request files],
                       navigated = Some \<lparr>nav_path = ''/analyse'',
                                         nav_uploadedFiles = uploadedFiles images videos response,
                                         nav_uploadResponse = response\<rparr>,
                       state_after = \<lparr>uploading = False, uploadError = None\<rparr>\<rparr>
                    else
                      \<lparr>alerts = duplicate_alerts response,
                       requests = [uploadComplaints_request files],
                       navigated = None,
                       state_after = \<lparr>uploading = True, uploadError = None\<rparr>\<rparr>)))"

text \<open>The File objects the entries already hold, and the sub-tickets of an upload answer.\<close>

definition attached_files :: "media list \<Rightarrow> js_file list" where
  "attached_files ms = concat (map (\<lambda>m. case media_file m of None \<Rightarrow> [] | Some f \<Rightarrow> [f]) ms)"

definition response_sub_tickets :: "upload_response \<Rightarrow> sub_ticket list" where
  "response_sub_tickets response =
     concat (map (\<lambda>t. or_empty (sub_tickets t)) (or_empty (tickets_created response)))"

text \<open>A result row whose type follows its issue type alone.\<close>

definition typed_by_issue :: "uploaded_file \<Rightarrow> bool" where
  "typed_by_issue r =
     ((uf_type r = ''video'') = (uf_issue_type r = Some ''video'')
      \<and> (uf_type r = ''image'') = (uf_issue_type r \<noteq> Some ''video''))"

section \<open>The ingestion pipeline behind the API\<close>

text \<open>
  The pages above only call the backend. Its stores and its gateway are described by
  the specification (sections 3 to 5); the definitions of this section are written
  from that description. What the specification leaves to configuration (the content
  hash, the detector, the bucket test with its radius and time window, the authority
  table, the maximal batch size) is a field of \<open>pipeline_config\<close>.
\<close>

text \<open>
  Modelled from the spec: the status of a SubTicket, one of open, in_progress, resolved
  and closed (section 3). The backend's type is missing from the sources.
\<close>

datatype status_value = StatusOpen | StatusInProgress | StatusResolved | StatusClosed

text \<open>
  Modelled from the spec: the error taxonomy of section 7. The backend's errors are
  missing from the sources.
\<close>

datatype pipeline_error =
    InvalidInput
  | UnsupportedMediaType
  | DuplicateMedia
  | DetectionTimeout
  | DetectionFailure
  | StorageFailure
  | InvalidStatusTransition
  | NotFound

text \<open>
  Modelled from the spec: the SubTicket of the data model (section 3). The backend's
  record is missing from the sources. \<open>stored_media\<close> lists the media items attached to
  the sub-ticket, which is how a canonical item is "associated" with it (section 4.2).
\<close>

record stored_sub =
  stored_sub_id :: nat
  stored_parent :: nat
  stored_issue_type :: string
  stored_authority :: string
  stored_status :: status_value
  stored_media_count :: nat
  stored_rejected_count :: nat
  stored_media :: "nat list"

text \<open>
  Modelled from the spec: the Ticket of the data model, with its sub-tickets in creation
  order. The backend's record is missing from the sources.
\<close>

record stored_ticket =
  stored_ticket_id :: nat
  stored_location :: "(real \<times> real) option"
  stored_created_at :: nat
  stored_subs :: "stored_sub list"

text \<open>
  Modelled from the spec: the MediaItem of the data model (its kind is left out). The
  backend's record is missing from the sources.
\<close>

record media_item =
  item_id :: nat
  item_hash :: string
  item_bytes :: string
  item_location :: "(real \<times> real) option"
  item_duplicate :: bool

text \<open>
  Modelled from the spec: the persisted state, that is the Dedup Store (hash to
  canonical media item), the Media Store and the Ticket Store. Missing from the sources.
\<close>

record pipeline_state =
  fingerprints :: "string \<rightharpoonup> nat"
  media_items :: "media_item list"
  stored_tickets :: "stored_ticket list"
  next_sub_id :: nat

text \<open>
  Modelled from the spec: the state of a system that has stored nothing yet.
\<close>

definition empty_pipeline_state :: pipeline_state where
  "empty_pipeline_state =
     \<lparr>fingerprints = Map.empty, media_items = [], stored_tickets = [], next_sub_id = 0\<rparr>"

text \<open>
  Modelled from the spec: what the pipeline takes from outside, namely the content hash
  \<open>fingerprint(bytes)\<close> (section 4.2), the detector behind the Detection Adapter with
  the issue types of its detections in order (section 4.3), the test whether a location
  and time fall into the bucket of a ticket's location and time (radius and window of
  section 4.4), the AuthorityMapping, and the configured maximal batch size. Missing
  from the sources.
\<close>

record pipeline_config =
  fingerprint :: "string \<Rightarrow> string"
  detect :: "string \<Rightarrow> pipeline_error + string list"
  in_bucket :: "(real \<times> real) \<Rightarrow> nat \<Rightarrow> (real \<times> real) \<Rightarrow> nat \<Rightarrow> bool"
  authority_mapping :: "string \<rightharpoonup> string"
  max_batch :: nat

text \<open>
  Modelled from the spec: a file of a batch (sections 4.1 and 6), that is its bytes, the
  attached geolocation if any, and the upload time. Missing from the sources.
\<close>

record upload =
  up_bytes :: string
  up_location :: "(real \<times> real) option"
  up_time :: nat

subsection \<open>Ticket Store: status updates\<close>

text \<open>
  Modelled from the spec: the forward-only chain open, in_progress, resolved, closed of
  section 4.5. The backend's validation is missing from the sources.
\<close>

definition status_chain :: "status_value list" where
  "status_chain = [StatusOpen, StatusInProgress, StatusResolved, StatusClosed]"

text \<open>
  Modelled from the spec: the validation of a transition against the chain. A
  transition follows the chain when it is one of its arrows, from a status to the next.
\<close>

definition follows_chain :: "status_value \<Rightarrow> status_value \<Rightarrow> bool" where
  "follows_chain old new = ((old, new) \<in> set (zip status_chain (tl status_chain)))"

text \<open>
  Modelled from the spec: looking a sub-ticket up by its id in the Ticket Store.
\<close>

definition find_sub :: "nat \<Rightarrow> stored_ticket list \<Rightarrow> stored_sub option" where
  "find_sub sid ts = find (\<lambda>s. stored_sub_id s = sid) (concat (map stored_subs ts))"

text \<open>
  Modelled from the spec: writing the new status of a sub-ticket into its ticket.
\<close>

definition set_status :: "nat \<Rightarrow> status_value \<Rightarrow> stored_ticket \<Rightarrow> stored_ticket" where
  "set_status sid new t =
     t\<lparr>stored_subs := map (\<lambda>s. if stored_sub_id s = sid then s\<lparr>stored_status := new\<rparr> else s)
                           (stored_subs t)\<rparr>"

text \<open>
  Modelled from the spec: \<open>updateStatus(sub_id, newStatus)\<close> of the Ticket Store
  (sections 4.5 and 6), missing from the sources. It answers the updated sub-ticket or
  an error, together with the state it leaves.
\<close>

definition updateStatus ::
  "pipeline_state \<Rightarrow> nat \<Rightarrow> status_value \<Rightarrow> (pipeline_error + stored_sub) \<times> pipeline_state" where
  "updateStatus st sid new =
     (case find_sub sid (stored_tickets st) of
        None \<Rightarrow> (Inl NotFound, st)
      | Some s \<Rightarrow>
          if follows_chain (stored_status s) new then
            (Inr (s\<lparr>stored_status := new\<rparr>),
             st\<lparr>stored_tickets := map (set_status sid new) (stored_tickets st)\<rparr>)
          else (Inl InvalidStatusTransition, st))"

text \<open>
  Modelled from the spec: reading the status of a stored sub-ticket, if it exists, as
  \<open>get\<close> of the Ticket Store shows it.
\<close>

definition status_of :: "pipeline_state \<Rightarrow> nat \<Rightarrow> status_value option" where
  "status_of st sid = map_option stored_status (find_sub sid (stored_tickets st))"

subsection \<open>Dedup Store\<close>

text \<open>
  Modelled from the spec: \<open>registerIfAbsent(hash, media_item_id)\<close> of section 4.2, one
  atomic check-and-set answering \<open>(registered, canonical_media_item_id)\<close> and the index
  it leaves. The backend's store is missing from the sources.
\<close>

definition registerIfAbsent ::
  "(string \<rightharpoonup> nat) \<Rightarrow> string \<Rightarrow> nat \<Rightarrow> (bool \<times> nat) \<times> (string \<rightharpoonup> nat)" where
  "registerIfAbsent fps h mid =
     (case fps h of
        None \<Rightarrow> ((True, mid), fps(h \<mapsto> mid))
      | Some canonical \<Rightarrow> ((False, canonical), fps))"

text \<open>
  Modelled from the spec: a duplicate increments the rejected count of the sub-tickets
  already associated with the canonical item, and creates nothing (sections 3 and 4.2).
\<close>

definition bump_rejected :: "nat \<Rightarrow> stored_ticket \<Rightarrow> stored_ticket" where
  "bump_rejected canonical t =
     t\<lparr>stored_subs :=
         map (\<lambda>s. if canonical \<in> set (stored_media s)
                   then s\<lparr>stored_rejected_count := Suc (stored_rejected_count s)\<rparr> else s)
             (stored_subs t)\<rparr>"

subsection \<open>Ticket Aggregation Engine\<close>

text \<open>
  Modelled from the spec: the lookup of step 1 of section 4.4. A ticket matches a
  detection when it lies in the detection's bucket and its sub-ticket of that issue type,
  if it has one, is neither resolved nor closed (section 3); a detection without a
  location matches nothing. Missing from the sources.
\<close>

definition ticket_matches :: "pipeline_config \<Rightarrow> string \<Rightarrow> (real \<times> real) \<Rightarrow> nat \<Rightarrow> stored_ticket \<Rightarrow> bool" where
  "ticket_matches cfg issue loc time t =
     (case stored_location t of
        None \<Rightarrow> False
      | Some tloc \<Rightarrow>
          in_bucket cfg loc time tloc (stored_created_at t)
          \<and> list_all (\<lambda>s. stored_issue_type s \<noteq> issue
                            \<or> stored_status s = StatusOpen \<or> stored_status s = StatusInProgress)
                      (stored_subs t))"

text \<open>
  Modelled from the spec: step 1 itself, the first ticket that matches; a detection
  without a known location is never merged (section 4.4).
\<close>

definition find_open_ticket ::
  "pipeline_config \<Rightarrow> string \<Rightarrow> (real \<times> real) option \<Rightarrow> nat \<Rightarrow> stored_ticket list
     \<Rightarrow> stored_ticket option" where
  "find_open_ticket cfg issue loc time ts =
     (case loc of None \<Rightarrow> None | Some l \<Rightarrow> find (ticket_matches cfg issue l time) ts)"

text \<open>
  Modelled from the spec: a new sub-ticket, open, counting the one media item, with the
  authority of the table or \<open>unassigned\<close> (section 4.4).
\<close>

definition new_sub :: "pipeline_config \<Rightarrow> nat \<Rightarrow> nat \<Rightarrow> string \<Rightarrow> nat \<Rightarrow> stored_sub" where
  "new_sub cfg sid tid issue mid =
     \<lparr>stored_sub_id = sid, stored_parent = tid, stored_issue_type = issue,
      stored_authority = (case authority_mapping cfg issue of
                            None \<Rightarrow> ''unassigned'' | Some a \<Rightarrow> a),
      stored_status = StatusOpen, stored_media_count = 1, stored_rejected_count = 0,
      stored_media = [mid]\<rparr>"

text \<open>
  Modelled from the spec: step 2 of section 4.4, one more media item on the sub-ticket
  of the issue type.
\<close>

definition attach_media :: "string \<Rightarrow> nat \<Rightarrow> stored_ticket \<Rightarrow> stored_ticket" where
  "attach_media issue mid t =
     t\<lparr>stored_subs :=
         map (\<lambda>s. if stored_issue_type s = issue
                   then s\<lparr>stored_media_count := Suc (stored_media_count s),
                          stored_media := stored_media s @ [mid]\<rparr>
                   else s)
             (stored_subs t)\<rparr>"

text \<open>
  Modelled from the spec: the decision procedure of section 4.4 for one detection of
  media item \<open>mid\<close>, steps 1 to 4, on the state and the ids of the tickets touched so
  far. Missing from the sources.
\<close>

definition aggregate ::
  "pipeline_config \<Rightarrow> nat \<Rightarrow> (real \<times> real) option \<Rightarrow> nat \<Rightarrow> pipeline_state \<times> nat list \<Rightarrow> string
     \<Rightarrow> pipeline_state \<times> nat list" where
  "aggregate cfg mid loc time acc issue =
     (let st = fst acc; touched = snd acc
      in case find_open_ticket cfg issue loc time (stored_tickets st) of
           None \<Rightarrow>
             (let tid = length (stored_tickets st)
              in (st\<lparr>stored_tickets :=
                       stored_tickets st
                       @ [\<lparr>stored_ticket_id = tid, stored_location = loc,
                           stored_created_at = time,
                           stored_subs = [new_sub cfg (next_sub_id st) tid issue mid]\<rparr>],
                     next_sub_id := Suc (next_sub_id st)\<rparr>,
                  touched @ [tid]))
         | Some t \<Rightarrow>
             if list_ex (\<lambda>s. stored_issue_type s = issue) (stored_subs t) then
               (st\<lparr>stored_tickets :=
                     map (\<lambda>u. if stored_ticket_id u = stored_ticket_id t
                               then attach_media issue mid u else u)
                         (stored_tickets st)\<rparr>,
                touched @ [stored_ticket_id t])
             else
               (st\<lparr>stored_tickets :=
                     map (\<lambda>u. if stored_ticket_id u = stored_ticket_id t
                               then u\<lparr>stored_subs :=
                                        stored_subs u
                                        @ [new_sub cfg (next_sub_id st) (stored_ticket_id t)
                                             issue mid]\<rparr>
                               else u)
                         (stored_tickets st),
                    next_sub_id := Suc (next_sub_id st)\<rparr>,
                touched @ [stored_ticket_id t]))"

subsection \<open>Ingestion Gateway\<close>

text \<open>
  Modelled from the spec: what the gateway gathers while it works through a batch, that
  is the tickets touched, the number of duplicates and the failures by file index.
\<close>

record batch_progress =
  touched_tickets :: "nat list"
  duplicates :: nat
  failures :: "(nat \<times> pipeline_error) list"

text \<open>
  Modelled from the spec: the answer to a batch (sections 4.1 and 6) without its
  message, whose text the specification leaves open.
\<close>

record batch_result =
  result_tickets_created :: "stored_ticket list"
  result_duplicates_found :: nat
  result_rejected :: "(nat \<times> pipeline_error) list"

text \<open>
  Modelled from the spec: what the gateway does with the \<open>i\<close>-th file of a batch
  (sections 4.1 to 4.4). A file whose hash is registered already is a duplicate: it is
  stored flagged, bumps the rejected counts, and never reaches the detector. A new file
  is detected; a failure leaves no trace but its report; otherwise the item becomes the
  canonical one for its hash and each issue type detected, once, is aggregated.
  Each file is one atomic step (section 5). Missing from the sources.
\<close>

definition process_file ::
  "pipeline_config \<Rightarrow> pipeline_state \<times> batch_progress \<Rightarrow> nat \<times> upload
     \<Rightarrow> pipeline_state \<times> batch_progress" where
  "process_file cfg acc indexed =
     (let st = fst acc; pr = snd acc; i = fst indexed; f = snd indexed;
          h = fingerprint cfg (up_bytes f);
          mid = length (media_items st);
          item = \<lparr>item_id = mid, item_hash = h, item_bytes = up_bytes f,
                  item_location = up_location f, item_duplicate = False\<rparr>
      in case registerIfAbsent (fingerprints st) h mid of
           ((registered, canonical), fps) \<Rightarrow>
             if \<not> registered then
               (st\<lparr>media_items := media_items st @ [item\<lparr>item_duplicate := True\<rparr>],
                   stored_tickets := map (bump_rejected canonical) (stored_tickets st)\<rparr>,
                pr\<lparr>duplicates := Suc (duplicates pr)\<rparr>)
             else
               (case detect cfg (up_bytes f) of
                  Inl e \<Rightarrow> (st, pr\<lparr>failures := failures pr @ [(i, e)]\<rparr>)
                | Inr detections \<Rightarrow>
                    (let st1 = st\<lparr>fingerprints := fps, media_items := media_items st @ [item]\<rparr>;
                         run = foldl (aggregate cfg mid (up_location f) (up_time f))
                                      (st1, touched_tickets pr) (remdups detections)
                     in (fst run, pr\<lparr>touched_tickets := snd run\<rparr>))))"

text \<open>
  Modelled from the spec: \<open>submitBatch(files)\<close> of section 4.1. An empty batch is
  rejected; files beyond the configured maximum are rejected one by one; the answer
  holds the snapshot of the tickets touched. Missing from the sources.
\<close>

definition submitBatch ::
  "pipeline_config \<Rightarrow> pipeline_state \<Rightarrow> upload list \<Rightarrow> (pipeline_error + batch_result) \<times> pipeline_state" where
  "submitBatch cfg st files =
     (if files = [] then (Inl InvalidInput, st)
      else
        (let accepted = take (max_batch cfg) files;
             excess = drop (max_batch cfg) files;
             run = foldl (process_file cfg)
                          (st, \<lparr>touched_tickets = [], duplicates = 0, failures = []\<rparr>)
                          (enumerate 0 accepted);
             st' = fst run; pr = snd run
         in (Inr \<lparr>result_tickets_created =
                     filter (\<lambda>t. stored_ticket_id t \<in> set (touched_tickets pr))
                            (stored_tickets st'),
                   result_duplicates_found = duplicates pr,
                   result_rejected =
                     failures pr
                     @ map (\<lambda>x. (fst x, InvalidInput)) (enumerate (max_batch cfg) excess)\<rparr>,
             st')))"

text \<open>
  A state in which the ids the gateway will hand out next are unused: ticket ids and
  the media items attached to sub-tickets lie below the respective counters.
\<close>

definition fresh_ids :: "pipeline_state \<Rightarrow> bool" where
  "fresh_ids st =
     (list_all (\<lambda>t. stored_ticket_id t < length (stored_tickets st)
                    \<and> list_all (\<lambda>s. list_all (\<lambda>m. m < length (media_items st)) (stored_media s))
                                (stored_subs t))
               (stored_tickets st))"

section \<open>Concrete inputs\<close>

definition example_sub :: "string \<Rightarrow> string \<Rightarrow> sub_ticket" where
  "example_sub sid st =
     \<lparr>sub_id = Some sid, issue_type = Some ''garbage'', authority = Some ''sanitation'',
      status = Some st, latitude = None, longitude = None, media_count = Some 1,
      rejected_count = Some 0, created_at = None, image_id = None\<rparr>"

definition example_ticket :: "string \<Rightarrow> sub_ticket list \<Rightarrow> ticket" where
  "example_ticket tid subs =
     \<lparr>ticket_id = Some tid, ticket_status = None, ticket_latitude = None,
      ticket_longitude = None, ticket_created_at = None, sub_tickets = Some subs\<rparr>"






definition example_located_ticket :: "real option \<Rightarrow> real option \<Rightarrow> sub_ticket list \<Rightarrow> ticket" where
  "example_located_ticket la lo subs =
     (example_ticket ''T1'' subs)\<lparr>ticket_latitude := la, ticket_longitude := lo\<rparr>"

definition example_located_sub :: "real option \<Rightarrow> real option \<Rightarrow> sub_ticket" where
  "example_located_sub la lo = (example_sub ''S1'' ''open'')\<lparr>latitude := la, longitude := lo\<rparr>"

definition example_file :: "string \<Rightarrow> string \<Rightarrow> js_file" where
  "example_file name type = \<lparr>file_name = name, file_type = type, file_content = ''bytes''\<rparr>"

definition example_media :: "string \<Rightarrow> js_file \<Rightarrow> real option \<Rightarrow> real option \<Rightarrow> media" where
  "example_media mid f la lo =
     \<lparr>media_id = mid, url = Some ''blob:preview'', media_file = Some f, lat = la, lng = lo\<rparr>"

definition example_fetchBlob :: "string \<Rightarrow> js_error + blob" where
  "example_fetchBlob u = Inr \<lparr>blob_type = ''image/png'', blob_content = ''bytes''\<rparr>"

definition example_upload_response :: "int \<Rightarrow> upload_response" where
  "example_upload_response dups =
     \<lparr>tickets_created = Some [example_ticket ''T1'' [example_sub ''S1'' ''open'']],
      duplicates_found = Some dups, message = None\<rparr>"

definition example_ok_response :: "'a \<Rightarrow> 'a http_response" where
  "example_ok_response data =
     \<lparr>ok = True, http_status = 200, statusText = ''OK'', body_text = ''{}'',
      body_json = Some (JObj []), body_data = Some data\<rparr>"

definition example_fetch :: "int \<Rightarrow> upload_request \<Rightarrow> js_error + upload_response http_response" where
  "example_fetch dups req = Inr (example_ok_response (example_upload_response dups))"

definition idle_state :: page_state where
  "idle_state = \<lparr>uploading = False, uploadError = None\<rparr>"

definition example_detail_body :: string where
  "example_detail_body =
     ''{'' @ [CHR 0x22] @ ''detail'' @ [CHR 0x22] @ '':'' @ [CHR 0x22] @ ''store unreachable''
       @ [CHR 0x22] @ ''}''"

definition example_error_response :: "'a http_response" where
  "example_error_response =
     \<lparr>ok = False, http_status = 503, statusText = ''Service Unavailable'',
      body_text = example_detail_body,
      body_json = Some (JObj [(''detail'', JStr ''store unreachable'')]),
      body_data = None\<rparr>"

definition example_failing_upload :: "upload_request \<Rightarrow> js_error + upload_response http_response" where
  "example_failing_upload req = Inr example_error_response"

definition example_failing_listing :: "api_endpoint \<Rightarrow> js_error + tickets_response http_response" where
  "example_failing_listing ep = Inr example_error_response"

definition example_stringify :: "json \<Rightarrow> string" where
  "example_stringify v = example_detail_body"

definition no_filters :: ticket_filters where
  "no_filters = \<lparr>filter_status = None, filter_issue_type = None\<rparr>"

definition example_stored_sub :: "nat \<Rightarrow> status_value \<Rightarrow> stored_sub" where
  "example_stored_sub sid s =
     \<lparr>stored_sub_id = sid, stored_parent = 0, stored_issue_type = ''pathholes'',
      stored_authority = ''roads'', stored_status = s, stored_media_count = 1,
      stored_rejected_count = 0, stored_media = [0]\<rparr>"

definition example_store :: "status_value \<Rightarrow> pipeline_state" where
  "example_store s =
     \<lparr>fingerprints = Map.empty, media_items = [],
      stored_tickets = [\<lparr>stored_ticket_id = 0, stored_location = Some (16.50, 80.64),
                         stored_created_at = 0, stored_subs = [example_stored_sub 0 s]\<rparr>],
      next_sub_id = 1\<rparr>"

definition example_config :: pipeline_config where
  "example_config =
     \<lparr>fingerprint = (\<lambda>bytes. bytes),
      detect = (\<lambda>bytes. if bytes = ''imgA'' then Inr [''pathholes'']
                         else if bytes = ''imgB'' then Inr [''garbage'']
                         else if bytes = ''imgD'' then Inr [''pathholes'']
                         else if bytes = ''imgE'' then Inr [''pathholes'', ''garbage'']
                         else Inr []),
      in_bucket = (\<lambda>l t l' t'. l = l'),
      authority_mapping = [''pathholes'' \<mapsto> ''roads''],
      max_batch = 10\<rparr>"

definition example_upload :: "string \<Rightarrow> upload" where
  "example_upload bytes = \<lparr>up_bytes = bytes, up_location = Some (16.50, 80.64), up_time = 0\<rparr>"

definition quoted :: "string \<Rightarrow> string" where
  "quoted s = [CHR 0x22] @ s @ [CHR 0x22]"

definition example_validation_body :: string where
  "example_validation_body =
     ''{'' @ quoted ''detail'' @ '':[{'' @ quoted ''loc'' @ '':['' @ quoted ''body'' @ '',''
       @ quoted ''files'' @ ''],'' @ quoted ''msg'' @ '':'' @ quoted ''field required'' @ '',''
       @ quoted ''type'' @ '':'' @ quoted ''value_error.missing'' @ ''}]}''"

definition example_validation_response :: "'a http_response" where
  "example_validation_response =
     \<lparr>ok = False, http_status = 422, statusText = ''Unprocessable Entity'',
      body_text = example_validation_body,
      body_json = Some (JObj [(''detail'',
                    JArr [JObj [(''loc'', JArr [JStr ''body'', JStr ''files'']),
                                (''msg'', JStr ''field required''),
                                (''type'', JStr ''value_error.missing'')]])]),
      body_data = None\<rparr>"

definition example_invalid_upload :: "upload_request \<Rightarrow> js_error + upload_response http_response" where
  "example_invalid_upload req = Inr example_validation_response"

definition example_invalid_listing :: "api_endpoint \<Rightarrow> js_error + tickets_response http_response" where
  "example_invalid_listing ep = Inr example_validation_response"

definition example_null_response :: "'a http_response" where
  "example_null_response =
     \<lparr>ok = False, http_status = 500, statusText = ''Internal Server Error'',
      body_text = ''null'', body_json = Some JNull, body_data = None\<rparr>"

definition example_null_upload :: "upload_request \<Rightarrow> js_error + upload_response http_response" where
  "example_null_upload req = Inr example_null_response"

definition example_null_listing :: "api_endpoint \<Rightarrow> js_error + tickets_response http_response" where
  "example_null_listing ep = Inr example_null_response"

definition dismisses_all :: "string \<Rightarrow> bool" where
  "dismisses_all text = True"

definition dismisses_none :: "string \<Rightarrow> bool" where
  "dismisses_none text = False"

definition batch_summary ::
  "(pipeline_error + batch_result) \<times> pipeline_state
     \<Rightarrow> (nat \<times> (nat \<times> nat) list list \<times> nat) option" where
  "batch_summary r =
     (case fst r of
        Inl e \<Rightarrow> None
      | Inr res \<Rightarrow>
          Some (result_duplicates_found res,
                map (\<lambda>t. map (\<lambda>s. (stored_media_count s, stored_rejected_count s))
                             (stored_subs t))
                    (result_tickets_created res),
                length (stored_tickets (snd r))))"

definition state_after_imgA :: pipeline_state where
  "state_after_imgA =
     snd (submitBatch example_config empty_pipeline_state [example_upload ''imgA''])"
section \<open>Theorems\<close>

lemma filter_none: "\<forall>x \<in> set xs. \<not> P x \<Longrightarrow> filter P xs = []"
  by (induction xs) auto

text \<open>
  C8. When no ticket object of the listing carries a top-level status (the status lives
  on the sub-tickets), the dashboard reports resolved = 0, in progress = 0 and
  open = number of tickets, whatever the statuses of the sub-tickets are.
\<close>

theorem HomePage_stats_without_ticket_status:
  assumes "\<forall>t \<in> set (or_empty (tickets response)). ticket_status t = None"
  shows "HomePage_stats response =
           \<lparr>st_total = int (length (or_empty (tickets response))), st_resolved = 0,
            st_working = 0, st_open = int (length (or_empty (tickets response)))\<rparr>"
proof -
  let ?ts = "or_empty (tickets response)"
  have r: "filter (\<lambda>t. ticket_status t = Some ''resolved''
                      \<or> ticket_status t = Some ''closed'') ?ts = []"
    using assms by (intro filter_none) simp
  have w: "filter (\<lambda>t. ticket_status t = Some ''in_progress''
                      \<or> ticket_status t = Some ''working'') ?ts = []"
    using assms by (intro filter_none) simp
  show ?thesis
    by (simp add: HomePage_stats_def r w Let_def)
qed

theorem HomePage_stats_without_ticket_status_witness:
  "HomePage_stats \<lparr>tickets = Some [example_ticket ''T1'' [example_sub ''S1'' ''resolved''],
                                    example_ticket ''T2'' [example_sub ''S2'' ''in_progress'']]\<rparr>
     = \<lparr>st_total = 2, st_resolved = 0, st_working = 0, st_open = 2\<rparr>"
  using HomePage_stats_without_ticket_status
    [of "\<lparr>tickets = Some [example_ticket ''T1'' [example_sub ''S1'' ''resolved''],
                            example_ticket ''T2'' [example_sub ''S2'' ''in_progress'']]\<rparr>"]
  by (simp add: or_empty_def example_ticket_def)

subsection \<open>The sort of the log\<close>

lemma mset_insert_by: "mset (insert_by cmp x xs) = add_mset x (mset xs)"
  by (induction xs) auto

lemma mset_js_sort: "mset (js_sort cmp xs) = mset xs"
  by (induction xs) (auto simp: js_sort_def mset_insert_by)


lemma set_js_sort: "set (js_sort cmp xs) = set xs"
  using mset_js_sort [of cmp xs] by (metis set_mset_mset)



text \<open>Stability: rows of one time keep the order they were fetched in.\<close>

lemma filter_insert_by_stable:
  assumes "\<forall>a \<in> insert x (set xs). \<forall>b \<in> insert x (set xs). (cmp a b \<le> 0) = (f b \<le> f a)"
  shows "filter (\<lambda>r. f r = (k::int)) (insert_by cmp x xs)
           = (if f x = k then x # filter (\<lambda>r. f r = k) xs else filter (\<lambda>r. f r = k) xs)"
  using assms
proof (induction xs)
  case Nil
  then show ?case by simp
next
  case (Cons y ys)
  show ?case
  proof (cases "cmp x y \<le> 0")
    case True
    then show ?thesis by simp
  next
    case False
    then have lt: "f x < f y" using Cons.prems(1) by auto
    have ih: "filter (\<lambda>r. f r = k) (insert_by cmp x ys)
           = (if f x = k then x # filter (\<lambda>r. f r = k) ys else filter (\<lambda>r. f r = k) ys)"
      using Cons by auto
    have "f x = k \<Longrightarrow> f y \<noteq> k" using lt by auto
    then show ?thesis using False ih by auto
  qed
qed

lemma js_sort_stable:
  assumes "\<forall>a \<in> set xs. \<forall>b \<in> set xs. (cmp a b \<le> 0) = (f b \<le> f a)"
  shows "filter (\<lambda>r. f r = (k::int)) (js_sort cmp xs) = filter (\<lambda>r. f r = k) xs"
  using assms
proof (induction xs)
  case Nil
  then show ?case by (simp add: js_sort_def)
next
  case (Cons x xs)
  have "filter (\<lambda>r. f r = k) (insert_by cmp x (js_sort cmp xs))
          = (if f x = k then x # filter (\<lambda>r. f r = k) (js_sort cmp xs)
             else filter (\<lambda>r. f r = k) (js_sort cmp xs))"
    by (rule filter_insert_by_stable) (use Cons.prems set_js_sort [of cmp xs] in auto)
  moreover have "filter (\<lambda>r. f r = k) (js_sort cmp xs) = filter (\<lambda>r. f r = k) xs"
    using Cons by auto
  ultimately show ?case by (simp add: js_sort_def)
qed


subsection \<open>The page window\<close>




subsection \<open>The page number and the filters\<close>




text \<open>With the entry \<open>all\<close> of the status select, the default, the status is not filtered.\<close>

lemma listing_without_status_filter:
  assumes "selectedStatus st = ''all''"
  shows "mset (filteredTickets parseDate st rows)
           = mset (filter (\<lambda>r. distortionMatch st r \<and> dateMatch st r) rows)"
proof -
  have "filter (row_matches st) rows = filter (\<lambda>r. distortionMatch st r \<and> dateMatch st r) rows"
    by (rule filter_cong) (auto simp: row_matches_def statusMatch_def assms)
  then show ?thesis by (simp add: filteredTickets_def mset_js_sort)
qed




subsection \<open>Locations on the map and in the log\<close>

lemma entries_of_update [simp]:
  "MapView_entries_of (t\<lparr>sub_tickets := x\<rparr>) s = MapView_entries_of t s"
  by (simp add: MapView_entries_of_def Let_def)

lemma markers_of_single:
  "MapView_markers \<lparr>tickets = Some [t\<lparr>sub_tickets := Some [s]\<rparr>]\<rparr>
     = concat (map (\<lambda>e. case MapView_render_entry e of None \<Rightarrow> [] | Some m \<Rightarrow> [m])
                   (MapView_entries_of t s))"
  by (simp add: MapView_markers_def MapView_fetchTickets_def or_empty_def)

lemma markers_of_entries:
  "(concat (map (\<lambda>e. case MapView_render_entry e of None \<Rightarrow> [] | Some m \<Rightarrow> [m])
                   (MapView_entries_of t s)) \<noteq> []) = located t s"
  by (auto simp: MapView_entries_of_def MapView_render_entry_def located_def truthy_num_def Let_def
      split: option.splits)

lemma cell_located:
  "(TicketLog_location_cell (TicketLog_row t s) \<noteq> LocationNotAvailable) = located t s"
  by (auto simp: TicketLog_location_cell_def TicketLog_row_def located_def truthy_num_def Let_def
      split: option.splits)

lemma length_markers_entries:
  "length (concat (map (\<lambda>e. case MapView_render_entry e of None \<Rightarrow> [] | Some m \<Rightarrow> [m])
                   (MapView_entries_of t s))) = (if located t s then 1 else 0)"
  by (auto simp: MapView_entries_of_def MapView_render_entry_def located_def truthy_num_def Let_def
      split: option.splits)

lemma length_concat_sum: "length (concat xss) = sum_list (map length xss)"
  by (induction xss) auto

text \<open>Over a whole listing: one marker for each located sub-ticket, and no other.\<close>

lemma MapView_markers_count:
  "length (MapView_markers response)
     = length (filter (\<lambda>p. located (fst p) (snd p)) (sub_tickets_with_parent response))"
proof -
  have inner: "\<And>t subs. length (concat (map (\<lambda>e. case MapView_render_entry e of None \<Rightarrow> [] | Some m \<Rightarrow> [m])
                   (concat (map (MapView_entries_of t) subs))))
           = length (filter (\<lambda>p. located (fst p) (snd p)) (map (Pair t) subs))"
  proof -
    fix t subs show "length (concat (map (\<lambda>e. case MapView_render_entry e of None \<Rightarrow> [] | Some m \<Rightarrow> [m])
                   (concat (map (MapView_entries_of t) subs))))
           = length (filter (\<lambda>p. located (fst p) (snd p)) (map (Pair t) subs))"
      by (induction subs) (simp_all add: length_markers_entries)
  qed
  have outer: "\<And>ts. length (concat (map (\<lambda>e. case MapView_render_entry e of None \<Rightarrow> [] | Some m \<Rightarrow> [m])
                   (concat (map (\<lambda>t. concat (map (MapView_entries_of t) (or_empty (sub_tickets t)))) ts))))
           = length (filter (\<lambda>p. located (fst p) (snd p)) (concat (map (\<lambda>t. map (Pair t) (or_empty (sub_tickets t))) ts)))"
  proof -
    fix ts show "length (concat (map (\<lambda>e. case MapView_render_entry e of None \<Rightarrow> [] | Some m \<Rightarrow> [m])
                   (concat (map (\<lambda>t. concat (map (MapView_entries_of t) (or_empty (sub_tickets t)))) ts))))
           = length (filter (\<lambda>p. located (fst p) (snd p)) (concat (map (\<lambda>t. map (Pair t) (or_empty (sub_tickets t))) ts)))"
      by (induction ts) (simp_all add: inner)
  qed
  show ?thesis
    by (simp add: MapView_markers_def MapView_fetchTickets_def sub_tickets_with_parent_def outer)
qed

text \<open>
  C10. On the map and in the log a sub-ticket has a location exactly when its latitude
  and its longitude, each falling back to the parent ticket's, are both truthy. So an
  effective coordinate of 0 means no marker on the map and "Location not available" in
  the log.
\<close>

theorem location_shown_iff_located:
  "(MapView_markers \<lparr>tickets = Some [t\<lparr>sub_tickets := Some [s]\<rparr>]\<rparr> \<noteq> []) = located t s
   \<and> (TicketLog_location_cell (TicketLog_row t s) \<noteq> LocationNotAvailable) = located t s
   \<and> (or_number (latitude s) (ticket_latitude t) = Some 0
        \<or> or_number (longitude s) (ticket_longitude t) = Some 0
      \<longrightarrow> MapView_markers \<lparr>tickets = Some [t\<lparr>sub_tickets := Some [s]\<rparr>]\<rparr> = []
          \<and> TicketLog_location_cell (TicketLog_row t s) = LocationNotAvailable)"
proof -
  have a: "(MapView_markers \<lparr>tickets = Some [t\<lparr>sub_tickets := Some [s]\<rparr>]\<rparr> \<noteq> []) = located t s"
    by (simp only: markers_of_single markers_of_entries)
  have b: "(TicketLog_location_cell (TicketLog_row t s) \<noteq> LocationNotAvailable) = located t s"
    by (rule cell_located)
  have z: "or_number (latitude s) (ticket_latitude t) = Some 0
        \<or> or_number (longitude s) (ticket_longitude t) = Some 0 \<Longrightarrow> \<not> located t s"
    by (auto simp: located_def truthy_num_def)
  show ?thesis using a b z by blast
qed

theorem location_shown_iff_located_witness:
  "MapView_markers \<lparr>tickets = Some [(example_located_ticket (Some 0) (Some 80.648) [])
                                     \<lparr>sub_tickets := Some [example_located_sub None None]\<rparr>]\<rparr> = []
   \<and> TicketLog_location_cell
       (TicketLog_row (example_located_ticket (Some 0) (Some 80.648) [])
                      (example_located_sub None None)) = LocationNotAvailable"
proof -
  have h: "or_number (latitude (example_located_sub None None))
                  (ticket_latitude (example_located_ticket (Some 0) (Some 80.648) [])) = Some 0"
    by (simp add: example_located_sub_def example_located_ticket_def or_number_def
        truthy_num_def)
  show ?thesis
    using location_shown_iff_located
      [where t = "example_located_ticket (Some 0) (Some 80.648) []"
         and s = "example_located_sub None None"] h
    by blast
qed


subsection \<open>The rows of the upload results\<close>

lemma map_uf_type_push_sub_tickets:
  "map uf_type (push_sub_tickets allMedia t ss acc)
     = map uf_type acc @ map (\<lambda>s. if issue_type s = Some ''video'' then ''video'' else ''image'') ss"
  by (induction ss arbitrary: acc) (simp_all add: upload_row_def Let_def)

lemma map_uf_type_push_tickets:
  "map uf_type (push_tickets allMedia ts acc)
     = map uf_type acc
       @ map (\<lambda>s. if issue_type s = Some ''video'' then ''video'' else ''image'')
             (concat (map (\<lambda>t. or_empty (sub_tickets t)) ts))"
  by (induction ts arbitrary: acc) (simp_all add: map_uf_type_push_sub_tickets)

lemma map_uf_issue_type_push_sub_tickets:
  "map uf_issue_type (push_sub_tickets allMedia t ss acc) = map uf_issue_type acc @ map issue_type ss"
  by (induction ss arbitrary: acc) (simp_all add: upload_row_def Let_def)

lemma map_uf_issue_type_push_tickets:
  "map uf_issue_type (push_tickets allMedia ts acc)
     = map uf_issue_type acc @ map issue_type (concat (map (\<lambda>t. or_empty (sub_tickets t)) ts))"
  by (induction ts arbitrary: acc) (simp_all add: map_uf_issue_type_push_sub_tickets)

lemma typed_upload_row: "typed_by_issue (upload_row allMedia t s i)"
  by (simp add: upload_row_def Let_def typed_by_issue_def)

lemma typed_push_sub_tickets:
  "\<forall>r \<in> set acc. typed_by_issue r
     \<Longrightarrow> \<forall>r \<in> set (push_sub_tickets allMedia t ss acc). typed_by_issue r"
proof (induction ss arbitrary: acc)
  case Nil
  then show ?case by simp
next
  case (Cons s ss)
  have "\<forall>r \<in> set (acc @ [upload_row allMedia t s (length acc)]). typed_by_issue r"
    using Cons.prems by (simp add: typed_upload_row)
  from Cons.IH [OF this] show ?case by simp
qed

lemma typed_push_tickets:
  "\<forall>r \<in> set acc. typed_by_issue r
     \<Longrightarrow> \<forall>r \<in> set (push_tickets allMedia ts acc). typed_by_issue r"
proof (induction ts arbitrary: acc)
  case Nil
  then show ?case by simp
next
  case (Cons t ts)
  show ?case
    using Cons.IH [OF typed_push_sub_tickets [OF Cons.prems]] by simp
qed

lemma uploadedFiles_push:
  "uploadedFiles images videos response
     = push_tickets (images @ videos) (or_empty (tickets_created response)) []"
  by (cases "tickets_created response"; cases "or_empty (tickets_created response)")
     (auto simp: uploadedFiles_def or_empty_def)

text \<open>
  C9. A row of the upload results is typed \<open>video\<close> exactly when the issue type of its
  sub-ticket is the string \<open>video\<close>. There is one row for each sub-ticket of the answer,
  and its type is read off the issue type alone: for \<open>pathholes\<close>, \<open>garbage\<close> and
  \<open>streetdebris\<close> it is \<open>image\<close>, whatever media were uploaded.
\<close>

theorem result_row_type_by_issue_type:
  "(\<forall>r \<in> set (uploadedFiles images videos response).
       (uf_type r = ''video'') = (uf_issue_type r = Some ''video'')
       \<and> (uf_issue_type r \<in> {Some ''pathholes'', Some ''garbage'', Some ''streetdebris''}
            \<longrightarrow> uf_type r = ''image''))
   \<and> map uf_issue_type (uploadedFiles images videos response)
       = map issue_type (response_sub_tickets response)
   \<and> map uf_type (uploadedFiles images videos response)
       = map (\<lambda>s. if issue_type s = Some ''video'' then ''video'' else ''image'')
             (response_sub_tickets response)"
proof -
  have t: "\<forall>r \<in> set (uploadedFiles images videos response). typed_by_issue r"
    unfolding uploadedFiles_push by (rule typed_push_tickets) simp
  have a: "\<forall>r \<in> set (uploadedFiles images videos response).
       (uf_type r = ''video'') = (uf_issue_type r = Some ''video'')
       \<and> (uf_issue_type r \<in> {Some ''pathholes'', Some ''garbage'', Some ''streetdebris''}
            \<longrightarrow> uf_type r = ''image'')"
    using t by (auto simp: typed_by_issue_def)
  have b: "map uf_issue_type (uploadedFiles images videos response)
       = map issue_type (response_sub_tickets response)"
    by (simp add: uploadedFiles_push map_uf_issue_type_push_tickets response_sub_tickets_def)
  have c: "map uf_type (uploadedFiles images videos response)
       = map (\<lambda>s. if issue_type s = Some ''video'' then ''video'' else ''image'')
             (response_sub_tickets response)"
    by (simp add: uploadedFiles_push map_uf_type_push_tickets response_sub_tickets_def)
  show ?thesis using a b c by (intro conjI)
qed

theorem result_row_type_by_issue_type_witness:
  "map uf_type
       (uploadedFiles [] [example_media ''v1'' (example_file ''clip.webm'' ''video/webm'') None None]
          (example_upload_response 0))
     = [''image'']"
  using result_row_type_by_issue_type
    [of "[]" "[example_media ''v1'' (example_file ''clip.webm'' ''video/webm'') None None]"
        "example_upload_response 0"]
  by (simp add: response_sub_tickets_def example_upload_response_def example_ticket_def
      example_sub_def or_empty_def)


subsection \<open>Submitting a batch\<close>

lemma filesToUpload_empty: "filesToUpload fetchBlob [] [] = Inr []"
  by (simp add: filesToUpload_def)

text \<open>
  C5. A submission with no media files is rejected and no upload request is issued:
  with no entries at all the handler only shows "Please add at least one image or video."
  and leaves the state as it was; with entries that yield no file it fails with
  "No valid files to upload", again before any request.
\<close>

theorem empty_batch_rejected:
  assumes "filesToUpload fetchBlob images videos = Inr []"
  shows "requests (handleAnalyze dismissed fetchBlob fetch images videos st) = []
       \<and> navigated (handleAnalyze dismissed fetchBlob fetch images videos st) = None
       \<and> alerts (handleAnalyze dismissed fetchBlob fetch images videos st)
           = [if images = [] \<and> videos = [] then ''Please add at least one image or video.''
              else ''Upload failed: No valid files to upload'']
       \<and> (images = [] \<and> videos = [] \<longrightarrow>
            state_after (handleAnalyze dismissed fetchBlob fetch images videos st) = st)"
  using assms by (simp add: handleAnalyze_def upload_failed_def)

theorem empty_batch_rejected_witness:
  "handleAnalyze dismisses_all example_fetchBlob (example_fetch 0) [] [] idle_state
     = \<lparr>alerts = [''Please add at least one image or video.''], requests = [],
        navigated = None, state_after = idle_state\<rparr>"
  using empty_batch_rejected
    [OF filesToUpload_empty, where dismissed = dismisses_all and fetchBlob = example_fetchBlob
       and fetch = "example_fetch 0" and st = idle_state]
  by (simp add: handleAnalyze_def)

text \<open>A field of the rows that is read off the sub-ticket, over all the rows.\<close>

lemma map_push_sub_tickets:
  assumes "\<And>s i. g (upload_row allMedia t s i) = h t s"
  shows "map g (push_sub_tickets allMedia t ss acc) = map g acc @ map (h t) ss"
  by (induction ss arbitrary: acc) (simp_all add: assms)

lemma map_push_tickets:
  assumes "\<And>t s i. g (upload_row allMedia t s i) = h t s"
  shows "map g (push_tickets allMedia ts acc)
           = map g acc @ concat (map (\<lambda>t. map (h t) (or_empty (sub_tickets t))) ts)"
  by (induction ts arbitrary: acc) (simp_all add: map_push_sub_tickets [where h = h] assms)

lemma map_uploadedFiles:
  assumes "\<And>t s i. g (upload_row (images @ videos) t s i) = h t s"
  shows "map g (uploadedFiles images videos response)
           = concat (map (\<lambda>t. map (h t) (or_empty (sub_tickets t)))
                         (or_empty (tickets_created response)))"
  using map_push_tickets [where g = g and h = h and allMedia = "images @ videos"
      and ts = "or_empty (tickets_created response)" and acc = "[]", OF assms]
  by (simp add: uploadedFiles_push)

lemma map_uploadedFiles_sub:
  assumes "\<And>t s i. g (upload_row (images @ videos) t s i) = f s"
  shows "map g (uploadedFiles images videos response) = map f (response_sub_tickets response)"
  using map_uploadedFiles [where g = g and h = "\<lambda>t. f", OF assms]
  by (simp add: response_sub_tickets_def map_concat comp_def)

text \<open>
  C6, as the code has it. When the answer to the upload reports \<open>duplicates_found > 0\<close>,
  the notice (the message of the answer, or the default text with the count) is shown
  by \<open>alert\<close>. Once the user has dismissed it the handler goes on: the page navigates to
  the analysis with one row for each sub-ticket of the tickets created, in order, holding
  its id, issue type, authority, status and counts and the id of its ticket, and no
  error is set.
\<close>

theorem duplicates_notice_keeps_results:
  assumes files: "filesToUpload fetchBlob images videos = Inr files" "files \<noteq> []"
    and answer: "fetch (uploadComplaints_request files) = Inr resp" "ok resp"
                "body_data resp = Some response"
    and dups: "duplicates_found response = Some n" "0 < n"
    and closed: "dismissed (if truthy_str (message response) then or_empty (message response)
                            else ''Some images were already registered. Duplicates: ''
                                 @ show_int n)"
  shows "alerts (handleAnalyze dismissed fetchBlob fetch images videos st)
           = [if truthy_str (message response) then or_empty (message response)
              else ''Some images were already registered. Duplicates: '' @ show_int n]
       \<and> (\<exists>nav. navigated (handleAnalyze dismissed fetchBlob fetch images videos st) = Some nav
              \<and> nav_path nav = ''/analyse''
              \<and> nav_uploadResponse nav = response
              \<and> length (nav_uploadedFiles nav) = length (response_sub_tickets response)
              \<and> map uf_sub_id (nav_uploadedFiles nav)
                    = map sub_id (response_sub_tickets response)
              \<and> map uf_issue_type (nav_uploadedFiles nav)
                    = map issue_type (response_sub_tickets response)
              \<and> map uf_authority (nav_uploadedFiles nav)
                    = map authority (response_sub_tickets response)
              \<and> map uf_status (nav_uploadedFiles nav)
                    = map status (response_sub_tickets response)
              \<and> map uf_media_count (nav_uploadedFiles nav)
                    = map media_count (response_sub_tickets response)
              \<and> map uf_rejected_count (nav_uploadedFiles nav)
                    = map rejected_count (response_sub_tickets response)
              \<and> map uf_ticket_id (nav_uploadedFiles nav)
                    = concat (map (\<lambda>t. map (\<lambda>s. ticket_id t) (or_empty (sub_tickets t)))
                                  (or_empty (tickets_created response))))
       \<and> state_after (handleAnalyze dismissed fetchBlob fetch images videos st)
           = \<lparr>uploading = False, uploadError = None\<rparr>"
proof -
  let ?notice = "if truthy_str (message response) then or_empty (message response)
                 else ''Some images were already registered. Duplicates: '' @ show_int n"
  let ?rows = "uploadedFiles images videos response"
  have ne: "\<not> (length images = 0 \<and> length videos = 0)"
    using files by (auto simp: filesToUpload_def)
  have up: "uploadComplaints fetch files = Inr response"
    using answer by (simp add: uploadComplaints_def)
  have d: "duplicate_alerts response = [?notice]"
    using dups by (simp add: duplicate_alerts_def)
  have h: "handleAnalyze dismissed fetchBlob fetch images videos st
             = \<lparr>alerts = [?notice],
                requests = [uploadComplaints_request files],
                navigated = Some \<lparr>nav_path = ''/analyse'', nav_uploadedFiles = ?rows,
                                  nav_uploadResponse = response\<rparr>,
                state_after = \<lparr>uploading = False, uploadError = None\<rparr>\<rparr>"
    using ne files up closed by (simp add: handleAnalyze_def d)
  have r1: "map uf_sub_id ?rows = map sub_id (response_sub_tickets response)"
    by (rule map_uploadedFiles_sub) (simp add: upload_row_def Let_def)
  have r2: "map uf_issue_type ?rows = map issue_type (response_sub_tickets response)"
    by (rule map_uploadedFiles_sub) (simp add: upload_row_def Let_def)
  have r3: "map uf_authority ?rows = map authority (response_sub_tickets response)"
    by (rule map_uploadedFiles_sub) (simp add: upload_row_def Let_def)
  have r4: "map uf_status ?rows = map status (response_sub_tickets response)"
    by (rule map_uploadedFiles_sub) (simp add: upload_row_def Let_def)
  have r5: "map uf_media_count ?rows = map media_count (response_sub_tickets response)"
    by (rule map_uploadedFiles_sub) (simp add: upload_row_def Let_def)
  have r6: "map uf_rejected_count ?rows = map rejected_count (response_sub_tickets response)"
    by (rule map_uploadedFiles_sub) (simp add: upload_row_def Let_def)
  have r7: "map uf_ticket_id ?rows
              = concat (map (\<lambda>t. map (\<lambda>s. ticket_id t) (or_empty (sub_tickets t)))
                            (or_empty (tickets_created response)))"
    by (rule map_uploadedFiles) (simp add: upload_row_def Let_def)
  have r0: "length ?rows = length (response_sub_tickets response)"
    using arg_cong [OF r1, of length] by simp
  show ?thesis
    using r0 r1 r2 r3 r4 r5 r6 r7 by (simp add: h)
qed

theorem duplicates_notice_keeps_results_witness:
  "alerts (handleAnalyze dismisses_all example_fetchBlob (example_fetch 1)
             [example_media ''i1'' (example_file ''a.png'' ''image/png'') None None,
              example_media ''i2'' (example_file ''a.png'' ''image/png'') None None] [] idle_state)
     = [''Some images were already registered. Duplicates: 1'']
   \<and> navigated (handleAnalyze dismisses_all example_fetchBlob (example_fetch 1)
             [example_media ''i1'' (example_file ''a.png'' ''image/png'') None None,
              example_media ''i2'' (example_file ''a.png'' ''image/png'') None None] [] idle_state)
     = Some \<lparr>nav_path = ''/analyse'',
             nav_uploadedFiles =
               [\<lparr>uf_id = ''i1'', uf_previewUrl = Some ''blob:preview'', uf_type = ''image'',
                 uf_ticket_id = Some ''T1'', uf_sub_id = Some ''S1'',
                 uf_issue_type = Some ''garbage'', uf_authority = Some ''sanitation'',
                 uf_status = Some ''open'', uf_latitude = None, uf_longitude = None,
                 uf_media_count = Some 1, uf_rejected_count = Some 0\<rparr>],
             nav_uploadResponse = example_upload_response 1\<rparr>"
proof -
  let ?images = "[example_media ''i1'' (example_file ''a.png'' ''image/png'') None None,
              example_media ''i2'' (example_file ''a.png'' ''image/png'') None None]"
  let ?files = "[example_file ''a.png'' ''image/png'', example_file ''a.png'' ''image/png'']"
  have f: "filesToUpload example_fetchBlob ?images [] = Inr ?files"
    by (simp add: filesToUpload_def image_files_def example_media_def)
  have ne: "?files \<noteq> []" by simp
  have a: "example_fetch 1 (uploadComplaints_request ?files)
             = Inr (example_ok_response (example_upload_response 1))"
    by (simp add: example_fetch_def)
  have o: "ok (example_ok_response (example_upload_response 1))"
    by (simp add: example_ok_response_def)
  have b: "body_data (example_ok_response (example_upload_response 1))
             = Some (example_upload_response 1)"
    by (simp add: example_ok_response_def)
  have d: "duplicates_found (example_upload_response 1) = Some 1"
    by (simp add: example_upload_response_def)
  have p: "(0::int) < 1" by simp
  have c: "dismisses_all (if truthy_str (message (example_upload_response 1))
                          then or_empty (message (example_upload_response 1))
                          else ''Some images were already registered. Duplicates: '' @ show_int 1)"
    by (simp add: dismisses_all_def)
  have m: "\<not> truthy_str (message (example_upload_response 1))"
    by (simp add: example_upload_response_def truthy_str_def)
  have s: "show_int 1 = ''1''"
    by (simp add: show_int_def show_nat.simps)
  have rows: "uploadedFiles ?images [] (example_upload_response 1)
     = [\<lparr>uf_id = ''i1'', uf_previewUrl = Some ''blob:preview'', uf_type = ''image'',
         uf_ticket_id = Some ''T1'', uf_sub_id = Some ''S1'',
         uf_issue_type = Some ''garbage'', uf_authority = Some ''sanitation'',
         uf_status = Some ''open'', uf_latitude = None, uf_longitude = None,
         uf_media_count = Some 1, uf_rejected_count = Some 0\<rparr>]"
    by (simp add: uploadedFiles_def example_upload_response_def example_ticket_def
        example_sub_def example_media_def or_empty_def upload_row_def at_index_def
        or_number_def truthy_num_def Let_def)
  from duplicates_notice_keeps_results
      [where dismissed = dismisses_all and fetch = "example_fetch 1" and st = idle_state,
       OF f ne a o b d p c]
  obtain nav where nav:
    "alerts (handleAnalyze dismisses_all example_fetchBlob (example_fetch 1) ?images [] idle_state)
       = [''Some images were already registered. Duplicates: 1'']"
    "navigated (handleAnalyze dismisses_all example_fetchBlob (example_fetch 1) ?images []
                  idle_state) = Some nav"
    using m s by auto
  have "navigated (handleAnalyze dismisses_all example_fetchBlob (example_fetch 1) ?images []
                  idle_state)
     = Some \<lparr>nav_path = ''/analyse'',
             nav_uploadedFiles = uploadedFiles ?images [] (example_upload_response 1),
             nav_uploadResponse = example_upload_response 1\<rparr>"
    using f a o b
    by (simp add: handleAnalyze_def uploadComplaints_def duplicate_alerts_def
        example_upload_response_def dismisses_all_def truthy_str_def)
  then show ?thesis using nav(1) rows by simp
qed

text \<open>
  C6 as stated fails: the notice is a modal dialog. While it is open the handler waits,
  nothing is shown of the results and the upload still counts as running.
\<close>

theorem duplicates_notice_waits_counterexample:
  "alerts (handleAnalyze dismisses_none example_fetchBlob (example_fetch 1)
             [example_media ''i1'' (example_file ''a.png'' ''image/png'') None None,
              example_media ''i2'' (example_file ''a.png'' ''image/png'') None None] [] idle_state)
     = [''Some images were already registered. Duplicates: 1'']
   \<and> navigated (handleAnalyze dismisses_none example_fetchBlob (example_fetch 1)
             [example_media ''i1'' (example_file ''a.png'' ''image/png'') None None,
              example_media ''i2'' (example_file ''a.png'' ''image/png'') None None] [] idle_state)
     = None
   \<and> state_after (handleAnalyze dismisses_none example_fetchBlob (example_fetch 1)
             [example_media ''i1'' (example_file ''a.png'' ''image/png'') None None,
              example_media ''i2'' (example_file ''a.png'' ''image/png'') None None] [] idle_state)
     = \<lparr>uploading = True, uploadError = None\<rparr>"
  by (simp add: handleAnalyze_def filesToUpload_def image_files_def example_media_def
      uploadComplaints_def example_fetch_def example_ok_response_def duplicate_alerts_def
      example_upload_response_def dismisses_none_def truthy_str_def show_int_def
      show_nat.simps)

lemma image_files_relabel:
  "image_files fetchBlob (m\<lparr>lat := la, lng := lo\<rparr>) = image_files fetchBlob m"
  by (simp add: image_files_def cong: option.case_cong sum.case_cong)

lemma video_files_relabel:
  "video_files fetchBlob (m\<lparr>lat := la, lng := lo\<rparr>) = video_files fetchBlob m"
  by (simp add: video_files_def cong: option.case_cong sum.case_cong)

lemma collect_files_relabel:
  assumes "\<And>m. step (g m) = step m"
  shows "collect_files step (map g ms) acc = collect_files step ms acc"
  by (induction ms arbitrary: acc) (simp_all add: assms split: sum.splits)

lemma filesToUpload_relabel:
  "filesToUpload fetchBlob (map (\<lambda>m. m\<lparr>lat := la m, lng := lo m\<rparr>) images)
                           (map (\<lambda>m. m\<lparr>lat := la' m, lng := lo' m\<rparr>) videos)
     = filesToUpload fetchBlob images videos"
  by (simp add: filesToUpload_def collect_files_relabel image_files_relabel video_files_relabel
      cong: sum.case_cong)

lemma requests_handleAnalyze:
  "requests (handleAnalyze dismissed fetchBlob fetch images videos st)
     = (if images = [] \<and> videos = [] then []
        else case filesToUpload fetchBlob images videos of
               Inl e \<Rightarrow> []
             | Inr files \<Rightarrow> if files = [] then [] else [uploadComplaints_request files])"
  by (simp add: handleAnalyze_def upload_failed_def split: sum.splits)

lemma collect_files_attached:
  assumes "\<forall>m \<in> set ms. media_file m \<noteq> None"
    and "\<And>m f. media_file m = Some f \<Longrightarrow> step m = Inr [f]"
  shows "collect_files step ms acc = Inr (acc @ attached_files ms)"
  using assms(1)
proof (induction ms arbitrary: acc)
  case Nil
  then show ?case by (simp add: attached_files_def)
next
  case (Cons m ms)
  then obtain f where f: "media_file m = Some f" by auto
  show ?case using Cons f assms(2) [OF f] by (simp add: attached_files_def)
qed

lemma filesToUpload_attached:
  assumes "\<forall>m \<in> set (images @ videos). media_file m \<noteq> None"
  shows "filesToUpload fetchBlob images videos = Inr (attached_files (images @ videos))"
proof -
  have i: "collect_files (image_files fetchBlob) images [] = Inr ([] @ attached_files images)"
    by (rule collect_files_attached) (use assms in \<open>auto simp: image_files_def\<close>)
  have v: "collect_files (video_files fetchBlob) videos (attached_files images)
             = Inr (attached_files images @ attached_files videos)"
    by (rule collect_files_attached) (use assms in \<open>auto simp: video_files_def\<close>)
  show ?thesis using i v by (simp add: filesToUpload_def attached_files_def)
qed

text \<open>
  C4, as the code has it. The upload request holds the media files, each under the form
  name \<open>files\<close>, images before videos, and nothing else. The coordinates attached to
  an entry are not part of it: the request is the same whatever they are.
\<close>

theorem upload_request_holds_files_only:
  "requests (handleAnalyze dismissed fetchBlob fetch (map (\<lambda>m. m\<lparr>lat := la m, lng := lo m\<rparr>) images)
                                           (map (\<lambda>m. m\<lparr>lat := la' m, lng := lo' m\<rparr>) videos) st)
     = requests (handleAnalyze dismissed fetchBlob fetch images videos st)
   \<and> ((images \<noteq> [] \<or> videos \<noteq> []) \<and> (\<forall>m \<in> set (images @ videos). media_file m \<noteq> None)
        \<longrightarrow> requests (handleAnalyze dismissed fetchBlob fetch images videos st)
              = [\<lparr>req_method = ''POST'', req_path = ''/api/complaints/batch'',
                  req_form = map (\<lambda>f. (''files'', FormFile f)) (attached_files (images @ videos))\<rparr>])"
proof -
  have a: "requests (handleAnalyze dismissed fetchBlob fetch (map (\<lambda>m. m\<lparr>lat := la m, lng := lo m\<rparr>) images)
                                           (map (\<lambda>m. m\<lparr>lat := la' m, lng := lo' m\<rparr>) videos) st)
     = requests (handleAnalyze dismissed fetchBlob fetch images videos st)"
    by (simp add: requests_handleAnalyze filesToUpload_relabel)
  have b: "requests (handleAnalyze dismissed fetchBlob fetch images videos st)
              = [\<lparr>req_method = ''POST'', req_path = ''/api/complaints/batch'',
                  req_form = map (\<lambda>f. (''files'', FormFile f)) (attached_files (images @ videos))\<rparr>]"
    if ne: "images \<noteq> [] \<or> videos \<noteq> []"
      and all: "\<forall>m \<in> set (images @ videos). media_file m \<noteq> None"
  proof -
    have "attached_files (images @ videos) \<noteq> []"
      using ne all by (cases images; cases videos) (auto simp: attached_files_def)
    then show ?thesis
      using ne by (simp add: requests_handleAnalyze filesToUpload_attached [OF all]
          uploadComplaints_request_def)
  qed
  show ?thesis using a b by blast
qed

theorem upload_request_holds_files_only_witness:
  "requests (handleAnalyze dismisses_all example_fetchBlob (example_fetch 0)
               [example_media ''i1'' (example_file ''a.png'' ''image/png'') (Some 16.5062) (Some 80.648)]
               [example_media ''v1'' (example_file ''clip.webm'' ''video/webm'') None None]
               idle_state)
     = [\<lparr>req_method = ''POST'', req_path = ''/api/complaints/batch'',
         req_form = [(''files'', FormFile (example_file ''a.png'' ''image/png'')),
                     (''files'', FormFile (example_file ''clip.webm'' ''video/webm''))]\<rparr>]"
  using upload_request_holds_files_only
    [where dismissed = dismisses_all and fetchBlob = example_fetchBlob
       and fetch = "example_fetch 0" and la = "\<lambda>m. lat m" and lo = "\<lambda>m. lng m"
       and images = "[example_media ''i1'' (example_file ''a.png'' ''image/png'')
                        (Some 16.5062) (Some 80.648)]"
       and la' = "\<lambda>m. lat m" and lo' = "\<lambda>m. lng m"
       and videos = "[example_media ''v1'' (example_file ''clip.webm'' ''video/webm'') None None]"
       and st = idle_state]
  by (simp add: attached_files_def example_media_def)

text \<open>
  C4 as stated fails: an image captured at (16.5062, 80.648) is uploaded by a request
  that holds the file alone, the same request as for an image without coordinates.
\<close>

theorem upload_request_without_location_counterexample:
  "requests (handleAnalyze dismisses_all example_fetchBlob (example_fetch 0)
               [example_media ''i1'' (example_file ''a.png'' ''image/png'') (Some 16.5062) (Some 80.648)]
               [] idle_state)
     = [\<lparr>req_method = ''POST'', req_path = ''/api/complaints/batch'',
         req_form = [(''files'', FormFile (example_file ''a.png'' ''image/png''))]\<rparr>]
   \<and> requests (handleAnalyze dismisses_all example_fetchBlob (example_fetch 0)
               [example_media ''i1'' (example_file ''a.png'' ''image/png'') None None]
               [] idle_state)
     = [\<lparr>req_method = ''POST'', req_path = ''/api/complaints/batch'',
         req_form = [(''files'', FormFile (example_file ''a.png'' ''image/png''))]\<rparr>]"
  by (simp add: handleAnalyze_def filesToUpload_def image_files_def example_media_def
      uploadComplaints_def uploadComplaints_request_def example_fetch_def example_ok_response_def)


subsection \<open>Answers that are not OK\<close>

text \<open>
  When the answer to the batch upload or to the listing is not OK, the call fails and
  returns no data. A non-empty string \<open>detail\<close> of a JSON object body is the message
  of the error. Without a truthy \<open>detail\<close> the listing falls back to the body (as text,
  or serialised again when it is a JSON object) and, for an empty body, to the status
  code; the upload falls back to the status text or the status code.
\<close>

lemma not_ok_response_error_cases:
  assumes upload: "fetchU (uploadComplaints_request files) = Inr u" "\<not> ok u"
    and listing: "fetchL (getTickets_endpoint filters) = Inr l" "\<not> ok l"
  shows "isl (uploadComplaints fetchU files) \<and> isl (getTickets stringify fetchL filters)
       \<and> (\<forall>kvs d. body_json u = Some (JObj kvs) \<and> map_of kvs ''detail'' = Some (JStr d) \<and> d \<noteq> []
             \<longrightarrow> uploadComplaints fetchU files = Inl (Error d))
       \<and> (\<forall>kvs d. body_json l = Some (JObj kvs) \<and> map_of kvs ''detail'' = Some (JStr d) \<and> d \<noteq> []
             \<longrightarrow> getTickets stringify fetchL filters = Inl (Error d))
       \<and> (body_json u = None
             \<longrightarrow> uploadComplaints fetchU files
                  = Inl (Error (if statusText u \<noteq> [] then statusText u
                                else ''Upload failed: '' @ show_nat (http_status u))))
       \<and> (\<forall>kvs. body_json u = Some (JObj kvs)
                 \<and> (\<forall>d. map_of kvs ''detail'' = Some d \<longrightarrow> \<not> truthy_json d)
             \<longrightarrow> uploadComplaints fetchU files
                  = Inl (Error (''Upload failed: '' @ show_nat (http_status u))))
       \<and> (body_json l = None
             \<longrightarrow> getTickets stringify fetchL filters
                  = Inl (Error (if body_text l \<noteq> [] then body_text l
                                else ''HTTP error! status: '' @ show_nat (http_status l))))
       \<and> (\<forall>kvs. body_json l = Some (JObj kvs)
                 \<and> (\<forall>d. map_of kvs ''detail'' = Some d \<longrightarrow> \<not> truthy_json d)
             \<longrightarrow> getTickets stringify fetchL filters
                  = Inl (Error (if stringify (JObj kvs) \<noteq> [] then stringify (JObj kvs)
                                else ''HTTP error! status: '' @ show_nat (http_status l))))"
proof -
  have u1: "isl (uploadComplaints fetchU files)"
    using upload by (simp add: uploadComplaints_def Let_def split: sum.splits)
  have l1: "isl (getTickets stringify fetchL filters)"
    using listing by (simp add: getTickets_def apiRequest_def Let_def)
  have u2: "\<forall>kvs d. body_json u = Some (JObj kvs) \<and> map_of kvs ''detail'' = Some (JStr d) \<and> d \<noteq> []
             \<longrightarrow> uploadComplaints fetchU files = Inl (Error d)"
    using upload by (simp add: uploadComplaints_def Let_def or_json_def)
  have l2: "\<forall>kvs d. body_json l = Some (JObj kvs) \<and> map_of kvs ''detail'' = Some (JStr d) \<and> d \<noteq> []
             \<longrightarrow> getTickets stringify fetchL filters = Inl (Error d)"
    using listing by (simp add: getTickets_def apiRequest_def Let_def or_json_def)
  have u3: "body_json u = None
             \<longrightarrow> uploadComplaints fetchU files
                  = Inl (Error (if statusText u \<noteq> [] then statusText u
                                else ''Upload failed: '' @ show_nat (http_status u)))"
    using upload by (simp add: uploadComplaints_def Let_def or_json_def)
  have u4: "\<forall>kvs. body_json u = Some (JObj kvs)
                 \<and> (\<forall>d. map_of kvs ''detail'' = Some d \<longrightarrow> \<not> truthy_json d)
             \<longrightarrow> uploadComplaints fetchU files
                  = Inl (Error (''Upload failed: '' @ show_nat (http_status u)))"
    using upload by (auto simp: uploadComplaints_def Let_def or_json_def split: option.splits)
  have l3: "body_json l = None
             \<longrightarrow> getTickets stringify fetchL filters
                  = Inl (Error (if body_text l \<noteq> [] then body_text l
                                else ''HTTP error! status: '' @ show_nat (http_status l)))"
    using listing by (simp add: getTickets_def apiRequest_def Let_def or_json_def)
  have l4: "\<forall>kvs. body_json l = Some (JObj kvs)
                 \<and> (\<forall>d. map_of kvs ''detail'' = Some d \<longrightarrow> \<not> truthy_json d)
             \<longrightarrow> getTickets stringify fetchL filters
                  = Inl (Error (if stringify (JObj kvs) \<noteq> [] then stringify (JObj kvs)
                                else ''HTTP error! status: '' @ show_nat (http_status l)))"
    using listing
    by (auto simp: getTickets_def apiRequest_def Let_def or_json_def split: option.splits)
  show ?thesis
    using u1 l1 u2 l2 u3 u4 l3 l4 by (intro conjI)
qed

lemma not_ok_response_error_cases_example:
  "uploadComplaints example_failing_upload [example_file ''a.png'' ''image/png'']
     = Inl (Error ''store unreachable'')
   \<and> getTickets example_stringify example_failing_listing no_filters
     = Inl (Error ''store unreachable'')"
proof -
  have u: "example_failing_upload (uploadComplaints_request [example_file ''a.png'' ''image/png''])
             = Inr example_error_response"
    by (simp add: example_failing_upload_def)
  have l: "example_failing_listing (getTickets_endpoint no_filters) = Inr example_error_response"
    by (simp add: example_failing_listing_def)
  have n: "\<not> ok (example_error_response :: upload_response http_response)"
    by (simp add: example_error_response_def)
  have n': "\<not> ok (example_error_response :: tickets_response http_response)"
    by (simp add: example_error_response_def)
  have j: "body_json (example_error_response :: upload_response http_response)
             = Some (JObj [(''detail'', JStr ''store unreachable'')])"
    by (simp add: example_error_response_def)
  have j': "body_json (example_error_response :: tickets_response http_response)
             = Some (JObj [(''detail'', JStr ''store unreachable'')])"
    by (simp add: example_error_response_def)
  show ?thesis
    using not_ok_response_error_cases
      [where fetchU = example_failing_upload and fetchL = example_failing_listing
         and stringify = example_stringify, OF u n l n'] j j'
    by simp
qed

text \<open>
  C7 does not hold for every answer that is not OK. A structured \<open>detail\<close>, such as the
  list of validation errors of a 422 answer, is not carried: \<open>new Error\<close> turns it into
  the text \<open>[object Object]\<close>, in both calls. A body that is the JSON \<open>null\<close> makes
  \<open>uploadComplaints\<close> throw a TypeError on reading \<open>detail\<close>, with neither the body nor
  the status in its message, where \<open>apiRequest\<close> catches the same and keeps the body.
\<close>

theorem not_ok_detail_lost:
  "uploadComplaints example_invalid_upload [example_file ''a.png'' ''image/png'']
     = Inl (Error ''[object Object]'')
   \<and> getTickets example_stringify example_invalid_listing no_filters
     = Inl (Error ''[object Object]'')
   \<and> uploadComplaints example_null_upload [example_file ''a.png'' ''image/png'']
     = Inl (TypeError (''Cannot read properties of null (reading '' @ [CHR 0x27] @ ''detail''
                       @ [CHR 0x27] @ '')''))
   \<and> getTickets example_stringify example_null_listing no_filters = Inl (Error ''null'')"
  by (simp add: uploadComplaints_def getTickets_def apiRequest_def or_json_def
      example_invalid_upload_def example_invalid_listing_def example_validation_response_def
      example_null_upload_def example_null_listing_def example_null_response_def)


subsection \<open>Status transitions of the Ticket Store\<close>

lemma follows_chain_iff:
  "follows_chain old new =
     ((old, new) = (StatusOpen, StatusInProgress)
      \<or> (old, new) = (StatusInProgress, StatusResolved)
      \<or> (old, new) = (StatusResolved, StatusClosed))"
  by (auto simp: follows_chain_def status_chain_def)

lemma find_map_set_status:
  "find (\<lambda>s. stored_sub_id s = sid)
        (map (\<lambda>s. if stored_sub_id s = sid then s\<lparr>stored_status := new\<rparr> else s) xs)
     = map_option (\<lambda>s. s\<lparr>stored_status := new\<rparr>) (find (\<lambda>s. stored_sub_id s = sid) xs)"
  by (induction xs) auto

lemma find_append:
  "find P (xs @ ys) = (case find P xs of None \<Rightarrow> find P ys | Some x \<Rightarrow> Some x)"
  by (induction xs) auto

lemma find_sub_set_status:
  "find_sub sid (map (set_status sid new) ts)
     = map_option (\<lambda>s. s\<lparr>stored_status := new\<rparr>) (find_sub sid ts)"
  unfolding find_sub_def
  by (induction ts) (auto simp: find_append set_status_def find_map_set_status split: option.splits)

lemma find_map_set_status_other:
  "sid' \<noteq> sid \<Longrightarrow>
   find (\<lambda>s. stored_sub_id s = sid')
        (map (\<lambda>s. if stored_sub_id s = sid then s\<lparr>stored_status := new\<rparr> else s) xs)
     = find (\<lambda>s. stored_sub_id s = sid') xs"
  by (induction xs) auto

lemma find_sub_set_status_other:
  "sid' \<noteq> sid \<Longrightarrow> find_sub sid' (map (set_status sid new) ts) = find_sub sid' ts"
  unfolding find_sub_def
  by (induction ts) (auto simp: find_append set_status_def find_map_set_status_other split: option.splits)

lemma find_sub_id: "find_sub sid ts = Some s \<Longrightarrow> stored_sub_id s = sid"
  by (auto simp: find_sub_def find_Some_iff)

text \<open>
  C3. A status update of an existing sub-ticket succeeds exactly when it is one of the
  arrows open to in_progress, in_progress to resolved, resolved to closed: then the
  sub-ticket has the new status and no other sub-ticket changes. Any other transition,
  such as closed to open, fails with InvalidStatusTransition and leaves the state, and
  so the status, as it was.
\<close>

theorem updateStatus_forward_chain:
  assumes "status_of st sid = Some old"
  shows "((old, new) \<in> {(StatusOpen, StatusInProgress), (StatusInProgress, StatusResolved),
                          (StatusResolved, StatusClosed)}
          \<longrightarrow> (\<exists>s. fst (updateStatus st sid new) = Inr s
                     \<and> stored_sub_id s = sid \<and> stored_status s = new)
              \<and> status_of (snd (updateStatus st sid new)) sid = Some new
              \<and> (\<forall>sid'. sid' \<noteq> sid
                     \<longrightarrow> status_of (snd (updateStatus st sid new)) sid' = status_of st sid'))
       \<and> ((old, new) \<notin> {(StatusOpen, StatusInProgress), (StatusInProgress, StatusResolved),
                           (StatusResolved, StatusClosed)}
          \<longrightarrow> updateStatus st sid new = (Inl InvalidStatusTransition, st)
              \<and> status_of (snd (updateStatus st sid new)) sid = Some old)"
proof -
  from assms obtain s where s: "find_sub sid (stored_tickets st) = Some s" "stored_status s = old"
    by (auto simp: status_of_def)
  have chain: "follows_chain old new
                 = ((old, new) \<in> {(StatusOpen, StatusInProgress), (StatusInProgress, StatusResolved),
                                   (StatusResolved, StatusClosed)})"
    by (simp add: follows_chain_iff)
  have ok: "(\<exists>s. fst (updateStatus st sid new) = Inr s
                     \<and> stored_sub_id s = sid \<and> stored_status s = new)
              \<and> status_of (snd (updateStatus st sid new)) sid = Some new
              \<and> (\<forall>sid'. sid' \<noteq> sid
                     \<longrightarrow> status_of (snd (updateStatus st sid new)) sid' = status_of st sid')"
    if "follows_chain old new"
    using that s find_sub_id [OF s(1)]
    by (simp add: updateStatus_def status_of_def find_sub_set_status find_sub_set_status_other)
  have bad: "updateStatus st sid new = (Inl InvalidStatusTransition, st)
              \<and> status_of (snd (updateStatus st sid new)) sid = Some old"
    if "\<not> follows_chain old new"
    using that s assms by (simp add: updateStatus_def)
  show ?thesis using ok bad chain by blast
qed

theorem updateStatus_forward_chain_witness:
  "updateStatus (example_store StatusClosed) 0 StatusOpen
     = (Inl InvalidStatusTransition, example_store StatusClosed)
   \<and> snd (updateStatus (example_store StatusOpen) 0 StatusInProgress)
       = example_store StatusInProgress
   \<and> snd (updateStatus (example_store StatusInProgress) 0 StatusResolved)
       = example_store StatusResolved
   \<and> snd (updateStatus (example_store StatusResolved) 0 StatusClosed)
       = example_store StatusClosed"
proof -
  have h: "status_of (example_store StatusClosed) 0 = Some StatusClosed"
    by (simp add: status_of_def find_sub_def example_store_def example_stored_sub_def)
  have a: "updateStatus (example_store StatusClosed) 0 StatusOpen
     = (Inl InvalidStatusTransition, example_store StatusClosed)"
    using updateStatus_forward_chain [OF h, of StatusOpen] by simp
  have b: "snd (updateStatus (example_store StatusOpen) 0 StatusInProgress)
       = example_store StatusInProgress"
    by (simp add: updateStatus_def find_sub_def example_store_def example_stored_sub_def
        follows_chain_iff set_status_def)
  have c: "snd (updateStatus (example_store StatusInProgress) 0 StatusResolved)
       = example_store StatusResolved"
    by (simp add: updateStatus_def find_sub_def example_store_def example_stored_sub_def
        follows_chain_iff set_status_def)
  have d: "snd (updateStatus (example_store StatusResolved) 0 StatusClosed)
       = example_store StatusClosed"
    by (simp add: updateStatus_def find_sub_def example_store_def example_stored_sub_def
        follows_chain_iff set_status_def)
  show ?thesis using a b c d by (intro conjI)
qed


subsection \<open>Deduplication in the ingestion pipeline\<close>

text \<open>The ids handed out stay fresh: every state reached from the empty one is covered.\<close>

lemma fresh_ids_empty: "fresh_ids empty_pipeline_state"
  by (simp add: fresh_ids_def empty_pipeline_state_def)

lemma aggregate_media_items:
  "media_items (fst (aggregate cfg mid loc time acc issue)) = media_items (fst acc)"
  by (simp add: aggregate_def Let_def split: option.splits)

lemma aggregate_fresh_ids:
  assumes "fresh_ids (fst acc)" and "mid < length (media_items (fst acc))"
  shows "fresh_ids (fst (aggregate cfg mid loc time acc issue))"
proof (cases "find_open_ticket cfg issue loc time (stored_tickets (fst acc))")
  case None
  then show ?thesis
    using assms by (auto simp: aggregate_def Let_def fresh_ids_def list_all_iff new_sub_def)
next
  case (Some t)
  then show ?thesis
    using assms
    by (auto simp: aggregate_def Let_def fresh_ids_def list_all_iff new_sub_def attach_media_def)
qed

lemma foldl_aggregate_fresh_ids:
  assumes "fresh_ids (fst acc)" and "mid < length (media_items (fst acc))"
  shows "fresh_ids (fst (foldl (aggregate cfg mid loc time) acc issues))"
  using assms
proof (induction issues arbitrary: acc)
  case Nil
  then show ?case by simp
next
  case (Cons i issues)
  show ?case
    using Cons.IH [of "aggregate cfg mid loc time acc i"] Cons.prems
    by (simp add: aggregate_fresh_ids aggregate_media_items)
qed

lemma process_file_fresh_ids:
  assumes "fresh_ids (fst acc)"
  shows "fresh_ids (fst (process_file cfg acc x))"
proof (cases "fingerprints (fst acc) (fingerprint cfg (up_bytes (snd x)))")
  case (Some c)
  then show ?thesis
    using assms
    by (auto simp: process_file_def registerIfAbsent_def Let_def fresh_ids_def list_all_iff
        bump_rejected_def intro!: less_SucI)
next
  case None
  show ?thesis
  proof (cases "detect cfg (up_bytes (snd x))")
    case (Inl e)
    then show ?thesis using None assms
      by (simp add: process_file_def registerIfAbsent_def Let_def)
  next
    case (Inr detections)
    let ?st1 = "(fst acc)\<lparr>fingerprints := (fingerprints (fst acc))
                     (fingerprint cfg (up_bytes (snd x)) \<mapsto> length (media_items (fst acc))),
                   media_items := media_items (fst acc)
                     @ [\<lparr>item_id = length (media_items (fst acc)),
                         item_hash = fingerprint cfg (up_bytes (snd x)),
                         item_bytes = up_bytes (snd x), item_location = up_location (snd x),
                         item_duplicate = False\<rparr>]\<rparr>"
    have f: "fresh_ids ?st1"
      using assms by (auto simp: fresh_ids_def list_all_iff intro!: less_SucI)
    have "fresh_ids (fst (foldl (aggregate cfg (length (media_items (fst acc)))
                                   (up_location (snd x)) (up_time (snd x)))
                                (?st1, touched_tickets (snd acc)) (remdups detections)))"
      by (rule foldl_aggregate_fresh_ids) (use f in simp_all)
    then show ?thesis using None Inr
      by (simp add: process_file_def registerIfAbsent_def Let_def)
  qed
qed

lemma foldl_process_file_fresh_ids:
  "fresh_ids (fst acc) \<Longrightarrow> fresh_ids (fst (foldl (process_file cfg) acc xs))"
  by (induction xs arbitrary: acc) (simp_all add: process_file_fresh_ids)

lemma submitBatch_fresh_ids:
  "fresh_ids st \<Longrightarrow> fresh_ids (snd (submitBatch cfg st files))"
  by (simp add: submitBatch_def Let_def foldl_process_file_fresh_ids)

lemma updateStatus_fresh_ids:
  "fresh_ids st \<Longrightarrow> fresh_ids (snd (updateStatus st sid new))"
  by (auto simp: updateStatus_def fresh_ids_def set_status_def list_all_iff
      split: option.splits)


text \<open>One duplicate, and a run of duplicates after the canonical item.\<close>

lemma process_file_duplicate:
  assumes "fingerprints s (fingerprint cfg (up_bytes f)) = Some c"
  shows "process_file cfg (s, pr) (i, f)
           = (s\<lparr>media_items :=
                   media_items s
                   @ [\<lparr>item_id = length (media_items s), item_hash = fingerprint cfg (up_bytes f),
                       item_bytes = up_bytes f, item_location = up_location f,
                       item_duplicate = True\<rparr>],
                 stored_tickets := map (bump_rejected c) (stored_tickets s)\<rparr>,
              pr\<lparr>duplicates := Suc (duplicates pr)\<rparr>)"
  using assms by (simp add: process_file_def registerIfAbsent_def Let_def)

lemma process_file_first:
  assumes "fingerprints st (fingerprint cfg (up_bytes f)) = None"
    and "detect cfg (up_bytes f) = Inr detections"
    and "remdups detections = [issue]"
    and "find_open_ticket cfg issue (up_location f) (up_time f) (stored_tickets st) = None"
  shows "process_file cfg (st, pr) (i, f)
           = (st\<lparr>fingerprints := (fingerprints st)(fingerprint cfg (up_bytes f) \<mapsto> length (media_items st)),
                  media_items :=
                    media_items st
                    @ [\<lparr>item_id = length (media_items st), item_hash = fingerprint cfg (up_bytes f),
                        item_bytes = up_bytes f, item_location = up_location f,
                        item_duplicate = False\<rparr>],
                  stored_tickets :=
                    stored_tickets st
                    @ [\<lparr>stored_ticket_id = length (stored_tickets st),
                        stored_location = up_location f, stored_created_at = up_time f,
                        stored_subs = [new_sub cfg (next_sub_id st) (length (stored_tickets st))
                                         issue (length (media_items st))]\<rparr>],
                  next_sub_id := Suc (next_sub_id st)\<rparr>,
              pr\<lparr>touched_tickets := touched_tickets pr @ [length (stored_tickets st)]\<rparr>)"
  using assms by (simp add: process_file_def registerIfAbsent_def aggregate_def Let_def)

lemma fold_duplicates:
  assumes "fingerprints s h = Some c"
    and "\<forall>x \<in> set xs. fingerprint cfg (up_bytes (snd x)) = h"
  shows "\<exists>new. foldl (process_file cfg) (s, pr) xs
                 = (s\<lparr>media_items := media_items s @ new,
                       stored_tickets := map ((bump_rejected c) ^^ length xs) (stored_tickets s)\<rparr>,
                    pr\<lparr>duplicates := duplicates pr + length xs\<rparr>)
               \<and> length new = length xs
               \<and> (\<forall>m \<in> set new. item_duplicate m \<and> item_hash m = h)"
  using assms
proof (induction xs arbitrary: s pr)
  case Nil
  then show ?case by simp
next
  case (Cons x xs)
  obtain i f where x: "x = (i, f)" by (cases x)
  let ?d = "\<lparr>item_id = length (media_items s), item_hash = fingerprint cfg (up_bytes f),
             item_bytes = up_bytes f, item_location = up_location f, item_duplicate = True\<rparr>"
  let ?s = "s\<lparr>media_items := media_items s @ [?d],
              stored_tickets := map (bump_rejected c) (stored_tickets s)\<rparr>"
  let ?pr = "pr\<lparr>duplicates := Suc (duplicates pr)\<rparr>"
  have h: "fingerprint cfg (up_bytes f) = h" using Cons.prems(2) x by simp
  have step: "process_file cfg (s, pr) x = (?s, ?pr)"
    unfolding x by (rule process_file_duplicate) (simp add: h Cons.prems(1))
  have fp: "fingerprints ?s h = Some c" using Cons.prems(1) by simp
  have rest: "\<forall>y \<in> set xs. fingerprint cfg (up_bytes (snd y)) = h" using Cons.prems(2) by simp
  from Cons.IH [OF fp rest, of ?pr] obtain new where
    new: "foldl (process_file cfg) (?s, ?pr) xs
            = (?s\<lparr>media_items := media_items ?s @ new,
                   stored_tickets := map ((bump_rejected c) ^^ length xs) (stored_tickets ?s)\<rparr>,
               ?pr\<lparr>duplicates := duplicates ?pr + length xs\<rparr>)"
      "length new = length xs" "\<forall>m \<in> set new. item_duplicate m \<and> item_hash m = h"
    by blast
  have "foldl (process_file cfg) (s, pr) (x # xs)
          = (s\<lparr>media_items := media_items s @ (?d # new),
                stored_tickets := map ((bump_rejected c) ^^ length (x # xs)) (stored_tickets s)\<rparr>,
             pr\<lparr>duplicates := duplicates pr + length (x # xs)\<rparr>)"
    by (simp add: step new(1) funpow_swap1)
  moreover have "length (?d # new) = length (x # xs)" using new(2) by simp
  moreover have "\<forall>m \<in> set (?d # new). item_duplicate m \<and> item_hash m = h"
    using new(3) h by simp
  ultimately show ?case by blast
qed

lemma bump_rejected_funpow:
  "((bump_rejected c) ^^ n) t
     = t\<lparr>stored_subs :=
           map (\<lambda>s. if c \<in> set (stored_media s)
                     then s\<lparr>stored_rejected_count := stored_rejected_count s + n\<rparr> else s)
               (stored_subs t)\<rparr>"
proof (induction n)
  case 0
  have "map (\<lambda>s. if c \<in> set (stored_media s)
                     then s\<lparr>stored_rejected_count := stored_rejected_count s + 0\<rparr> else s)
               (stored_subs t) = stored_subs t"
    by (rule map_idI) simp
  then show ?case by simp
next
  case (Suc n)
  have "((bump_rejected c) ^^ Suc n) t = bump_rejected c (((bump_rejected c) ^^ n) t)"
    by simp
  also have "\<dots> = bump_rejected c
                   (t\<lparr>stored_subs :=
                        map (\<lambda>s. if c \<in> set (stored_media s)
                                  then s\<lparr>stored_rejected_count := stored_rejected_count s + n\<rparr>
                                  else s)
                            (stored_subs t)\<rparr>)"
    by (simp only: Suc)
  also have "\<dots> = t\<lparr>stored_subs :=
                       map (\<lambda>s. if c \<in> set (stored_media s)
                                 then s\<lparr>stored_rejected_count := stored_rejected_count s + Suc n\<rparr>
                                 else s)
                           (stored_subs t)\<rparr>"
    by (simp add: bump_rejected_def comp_def)
  finally show ?case .
qed

lemma bump_rejected_funpow_old:
  assumes "list_all (\<lambda>s. list_all (\<lambda>m. m < c) (stored_media s)) (stored_subs t)"
  shows "((bump_rejected c) ^^ n) t = t"
proof -
  have "map (\<lambda>s. if c \<in> set (stored_media s)
                     then s\<lparr>stored_rejected_count := stored_rejected_count s + n\<rparr> else s)
               (stored_subs t) = stored_subs t"
    using assms by (intro map_idI) (auto simp: list_all_iff)
  then show ?thesis by (simp add: bump_rejected_funpow)
qed

lemma map_bump_old:
  assumes "list_all (\<lambda>t. list_all (\<lambda>s. list_all (\<lambda>m. m < c) (stored_media s)) (stored_subs t)) ts"
  shows "map ((bump_rejected c) ^^ n) ts = ts"
  using assms by (intro map_idI) (simp add: list_all_iff bump_rejected_funpow_old)

lemma filter_touched_new:
  assumes "list_all (\<lambda>t. stored_ticket_id t < tid) ts" and "stored_ticket_id t = tid"
  shows "filter (\<lambda>u. stored_ticket_id u \<in> set [tid]) (ts @ [t]) = [t]"
proof -
  have "filter (\<lambda>u. stored_ticket_id u \<in> set [tid]) ts = []"
    using assms(1) by (induction ts) auto
  then show ?thesis using assms(2) by simp
qed

text \<open>
  C1, as the pipeline has it. A batch that consists of \<open>N\<close> byte-identical files, in
  any order and with any attached locations, \<open>N\<close> within the batch maximum, whose content
  has not been registered before and is detected as exactly one issue type, with no open
  ticket matching any of the copies: the first file becomes the one canonical media item
  and creates one ticket with one sub-ticket counting the one media item; each of the
  other \<open>N - 1\<close> files is stored flagged as a duplicate and only raises the rejected
  count of that sub-ticket. The answer reports \<open>N - 1\<close> duplicates and that one ticket,
  and every ticket that existed before is left as it was. The hypotheses do not depend
  on the order of the files, and the last one holds in every state that batches and
  status updates reach from the empty one.
\<close>

theorem identical_copies_one_ticket:
  assumes nonempty: "files \<noteq> []"
    and bounded: "length files \<le> max_batch cfg"
    and copies: "\<forall>f \<in> set files. up_bytes f = b"
    and detected: "detect cfg b = Inr detections" "remdups detections = [issue]"
    and unseen: "fingerprints st (fingerprint cfg b) = None"
    and unmatched: "\<forall>f \<in> set files. find_open_ticket cfg issue (up_location f) (up_time f)
                                          (stored_tickets st) = None"
    and fresh: "fresh_ids st"
  shows "\<exists>res st' t s new.
           submitBatch cfg st files = (Inr res, st')
         \<and> result_duplicates_found res = length files - 1
         \<and> result_rejected res = []
         \<and> result_tickets_created res = [t]
         \<and> stored_tickets st' = stored_tickets st @ [t]
         \<and> stored_subs t = [s]
         \<and> stored_issue_type s = issue
         \<and> stored_media_count s = 1
         \<and> stored_rejected_count s = length files - 1
         \<and> media_items st' = media_items st @ new
         \<and> map item_duplicate new = False # replicate (length files - 1) True
         \<and> list_all (\<lambda>m. item_hash m = fingerprint cfg b) new
         \<and> fingerprints st' (fingerprint cfg b) = Some (length (media_items st))"
proof -
  from nonempty obtain f rest where files: "files = f # rest" by (cases files) auto
  let ?h = "fingerprint cfg b"
  let ?mid = "length (media_items st)"
  let ?tid = "length (stored_tickets st)"
  let ?n = "length rest"
  let ?item = "\<lparr>item_id = ?mid, item_hash = ?h, item_bytes = b, item_location = up_location f,
                item_duplicate = False\<rparr>"
  let ?sub = "new_sub cfg (next_sub_id st) ?tid issue ?mid"
  let ?t = "\<lparr>stored_ticket_id = ?tid, stored_location = up_location f,
             stored_created_at = up_time f, stored_subs = [?sub]\<rparr>"
  let ?st1 = "st\<lparr>fingerprints := (fingerprints st)(?h \<mapsto> ?mid),
                media_items := media_items st @ [?item],
                stored_tickets := stored_tickets st @ [?t],
                next_sub_id := Suc (next_sub_id st)\<rparr>"
  let ?pr0 = "\<lparr>touched_tickets = [], duplicates = 0, failures = []\<rparr>"
  let ?pr1 = "?pr0\<lparr>touched_tickets := touched_tickets ?pr0 @ [?tid]\<rparr>"
  have bf: "up_bytes f = b" using copies files by simp
  have first: "process_file cfg (st, ?pr0) (0, f) = (?st1, ?pr1)"
    using process_file_first [of st cfg f detections issue ?pr0 0]
      unseen detected unmatched bf files by simp
  have fp1: "fingerprints ?st1 ?h = Some ?mid" by simp
  have dups: "\<forall>x \<in> set (enumerate 1 rest). fingerprint cfg (up_bytes (snd x)) = ?h"
    using copies files by (auto simp: in_set_enumerate_eq)
  from fold_duplicates [OF fp1 dups, of ?pr1] obtain new where
    run: "foldl (process_file cfg) (?st1, ?pr1) (enumerate 1 rest)
            = (?st1\<lparr>media_items := media_items ?st1 @ new,
                     stored_tickets := map ((bump_rejected ?mid) ^^ ?n) (stored_tickets ?st1)\<rparr>,
               ?pr1\<lparr>duplicates := duplicates ?pr1 + ?n\<rparr>)"
    and len: "length new = ?n"
    and flagged: "\<forall>m \<in> set new. item_duplicate m \<and> item_hash m = ?h"
    by auto
  have old: "map ((bump_rejected ?mid) ^^ ?n) (stored_tickets st) = stored_tickets st"
    using fresh by (intro map_bump_old) (simp add: fresh_ids_def list_all_iff)
  let ?s' = "?sub\<lparr>stored_rejected_count := ?n\<rparr>"
  let ?t' = "?t\<lparr>stored_subs := [?s']\<rparr>"
  have newt: "((bump_rejected ?mid) ^^ ?n) ?t = ?t'"
    by (simp add: bump_rejected_funpow new_sub_def)
  have tickets: "map ((bump_rejected ?mid) ^^ ?n) (stored_tickets ?st1) = stored_tickets st @ [?t']"
    using old newt by simp
  let ?st' = "?st1\<lparr>media_items := media_items ?st1 @ new,
                    stored_tickets := stored_tickets st @ [?t']\<rparr>"
  let ?pr' = "?pr1\<lparr>duplicates := duplicates ?pr1 + ?n\<rparr>"
  have enum: "enumerate 0 (take (max_batch cfg) files) = (0, f) # enumerate 1 rest"
    using bounded files by (simp add: enumerate_simps)
  have none: "drop (max_batch cfg) files = []" using bounded by simp
  have fold: "foldl (process_file cfg) (st, ?pr0) (enumerate 0 (take (max_batch cfg) files))
                = (?st', ?pr')"
    using first run tickets by (simp add: enum)
  have created: "filter (\<lambda>u. stored_ticket_id u \<in> set [?tid]) (stored_tickets st @ [?t']) = [?t']"
    using fresh by (intro filter_touched_new) (simp_all add: fresh_ids_def list_all_iff)
  let ?res = "\<lparr>result_tickets_created = [?t'], result_duplicates_found = ?n,
               result_rejected = []\<rparr>"
  have submit: "submitBatch cfg st files = (Inr ?res, ?st')"
    using nonempty created by (simp add: submitBatch_def Let_def fold none)
  have "map item_duplicate new = map (\<lambda>m. True) new"
    using flagged by (intro map_cong) auto
  then have "map item_duplicate new = replicate ?n True"
    using len by (simp add: map_replicate_const)
  then have flags: "map item_duplicate (?item # new) = False # replicate ?n True"
    by simp
  have hashes: "list_all (\<lambda>m. item_hash m = ?h) (?item # new)"
    using flagged by (simp add: list_all_iff)
  show ?thesis
    apply (rule exI [of _ ?res], rule exI [of _ ?st'], rule exI [of _ ?t'], rule exI [of _ ?s'],
           rule exI [of _ "?item # new"])
    using submit flags hashes files by (simp add: new_sub_def)
qed

theorem identical_copies_one_ticket_witness:
  "\<exists>res st' t s.
      submitBatch example_config empty_pipeline_state
        [example_upload ''imgA'', example_upload ''imgA''] = (Inr res, st')
    \<and> result_duplicates_found res = 1
    \<and> result_tickets_created res = [t]
    \<and> stored_tickets st' = [t]
    \<and> stored_subs t = [s]
    \<and> stored_media_count s = 1
    \<and> stored_rejected_count s = 1
    \<and> map item_duplicate (media_items st') = [False, True]"
proof -
  let ?files = "[example_upload ''imgA'', example_upload ''imgA'']"
  have 1: "?files \<noteq> []" by simp
  have 2: "length ?files \<le> max_batch example_config" by (simp add: example_config_def)
  have 3: "\<forall>f \<in> set ?files. up_bytes f = ''imgA''" by (simp add: example_upload_def)
  have 4: "detect example_config ''imgA'' = Inr [''pathholes'']" by (simp add: example_config_def)
  have 5: "remdups [''pathholes''] = [''pathholes'']" by simp
  have 6: "fingerprints empty_pipeline_state (fingerprint example_config ''imgA'') = None"
    by (simp add: empty_pipeline_state_def)
  have 7: "\<forall>f \<in> set ?files. find_open_ticket example_config ''pathholes'' (up_location f)
             (up_time f) (stored_tickets empty_pipeline_state) = None"
    by (simp add: find_open_ticket_def empty_pipeline_state_def split: option.splits)
  have e: "stored_tickets empty_pipeline_state = []" "media_items empty_pipeline_state = []"
    by (simp_all add: empty_pipeline_state_def)
  show ?thesis
    using identical_copies_one_ticket [OF 1 2 3 4 5 6 7 fresh_ids_empty]
    apply (elim exE conjE)
    subgoal for res st' t s new
      apply (rule exI [of _ res], rule exI [of _ st'], rule exI [of _ t], rule exI [of _ s])
      apply (simp add: e)
      done
    done
qed

text \<open>The state after one image of a pothole has been submitted to the empty system.\<close>

lemma state_after_imgA_eq:
  "state_after_imgA =
     \<lparr>fingerprints = [''imgA'' \<mapsto> 0],
      media_items = [\<lparr>item_id = 0, item_hash = ''imgA'', item_bytes = ''imgA'',
                      item_location = Some (16.50, 80.64), item_duplicate = False\<rparr>],
      stored_tickets =
        [\<lparr>stored_ticket_id = 0, stored_location = Some (16.50, 80.64), stored_created_at = 0,
          stored_subs = [\<lparr>stored_sub_id = 0, stored_parent = 0,
                          stored_issue_type = ''pathholes'', stored_authority = ''roads'',
                          stored_status = StatusOpen, stored_media_count = 1,
                          stored_rejected_count = 0, stored_media = [0]\<rparr>]\<rparr>],
      next_sub_id = 1\<rparr>"
  by (simp add: state_after_imgA_def submitBatch_def process_file_def registerIfAbsent_def
      aggregate_def find_open_ticket_def new_sub_def example_config_def example_upload_def
      empty_pipeline_state_def Let_def enumerate_simps)

text \<open>
  C1 as stated fails in the pipeline of the specification. Each line gives, for a batch,
  the duplicates reported, the media and rejected counts of the sub-tickets of each
  ticket in the answer, and the number of tickets stored afterwards; for two copies the
  claim asks for 1 duplicate and for one new ticket of one sub-ticket with the counts
  \<open>(1, 1)\<close>. Two copies with a batch maximum of 1: the second is rejected as excess, not
  as a duplicate. Two copies of content registered before: both are duplicates and the
  batch creates nothing. Two copies in which nothing is detected: no ticket. Two copies
  on which the detector fails: both are reported as failures, none as a duplicate. Two
  copies with two issue types: one ticket with two sub-tickets. Two copies at the place
  of an open ticket of their issue type: they join that ticket, which then counts two
  media items. Two copies and a different image of the same defect at the same place:
  one ticket counting two media items.
\<close>

theorem identical_copies_counterexample:
  "batch_summary (submitBatch (example_config\<lparr>max_batch := 1\<rparr>) empty_pipeline_state
                    [example_upload ''imgA'', example_upload ''imgA''])
     = Some (0, [[(1, 0)]], 1)
   \<and> batch_summary (submitBatch example_config state_after_imgA
                      [example_upload ''imgA'', example_upload ''imgA''])
     = Some (2, [], 1)
   \<and> batch_summary (submitBatch example_config empty_pipeline_state
                      [example_upload ''imgC'', example_upload ''imgC''])
     = Some (1, [], 0)
   \<and> batch_summary (submitBatch (example_config\<lparr>detect := (\<lambda>bytes. Inl DetectionTimeout)\<rparr>)
                      empty_pipeline_state
                      [example_upload ''imgA'', example_upload ''imgA''])
     = Some (0, [], 0)
   \<and> batch_summary (submitBatch example_config empty_pipeline_state
                      [example_upload ''imgE'', example_upload ''imgE''])
     = Some (1, [[(1, 1), (1, 1)]], 1)
   \<and> batch_summary (submitBatch example_config state_after_imgA
                      [example_upload ''imgD'', example_upload ''imgD''])
     = Some (1, [[(2, 1)]], 1)
   \<and> batch_summary (submitBatch example_config empty_pipeline_state
                      [example_upload ''imgA'', example_upload ''imgA'', example_upload ''imgD''])
     = Some (1, [[(2, 1)]], 1)"
  by (simp add: state_after_imgA_eq batch_summary_def submitBatch_def process_file_def
      registerIfAbsent_def aggregate_def find_open_ticket_def ticket_matches_def new_sub_def
      attach_media_def bump_rejected_def example_config_def example_upload_def
      empty_pipeline_state_def Let_def enumerate_simps)

text \<open>
  The end-to-end example of the specification: two copies of an image of a pothole and
  one image of garbage elsewhere give two tickets of one sub-ticket each and one
  duplicate.
\<close>

lemma end_to_end_example:
  "fst (submitBatch example_config empty_pipeline_state
          [example_upload ''imgA'', example_upload ''imgA'',
           (example_upload ''imgB'')\<lparr>up_location := Some (16.51, 80.65)\<rparr>])
     = Inr \<lparr>result_tickets_created =
               [\<lparr>stored_ticket_id = 0, stored_location = Some (16.50, 80.64), stored_created_at = 0,
                 stored_subs = [\<lparr>stored_sub_id = 0, stored_parent = 0,
                                 stored_issue_type = ''pathholes'', stored_authority = ''roads'',
                                 stored_status = StatusOpen, stored_media_count = 1,
                                 stored_rejected_count = 1, stored_media = [0]\<rparr>]\<rparr>,
                \<lparr>stored_ticket_id = 1, stored_location = Some (16.51, 80.65), stored_created_at = 0,
                 stored_subs = [\<lparr>stored_sub_id = 1, stored_parent = 1,
                                 stored_issue_type = ''garbage'', stored_authority = ''unassigned'',
                                 stored_status = StatusOpen, stored_media_count = 1,
                                 stored_rejected_count = 0, stored_media = [2]\<rparr>]\<rparr>],
             result_duplicates_found = 1, result_rejected = []\<rparr>"
  by (simp add: submitBatch_def process_file_def registerIfAbsent_def aggregate_def
      find_open_ticket_def ticket_matches_def new_sub_def bump_rejected_def
      example_config_def example_upload_def empty_pipeline_state_def Let_def enumerate_simps)


end
